theory Spec2Isabelle
  imports Complex_Main "HOL-Library.Sublist"
begin

section \<open>Redes Viarias - Segmentos: the QGIS processing algorithm\<close>

text \<open>
  A shallow embedding of \<^verbatim>\<open>src/osmnx_municipio_segmentos.py\<close> (class
  \<^verbatim>\<open>OSMnxMunicipioSegments\<close>). A Python \<^verbatim>\<open>str\<close> is a \<^typ>\<open>string\<close>; the
  model covers ASCII text, where \<^verbatim>\<open>str.isdigit\<close> holds of the ten decimal digits
  only and \<^verbatim>\<open>str.lower\<close> changes the letters A to Z only.
\<close>

subsection \<open>Python strings\<close>

definition isdigit :: "char \<Rightarrow> bool" where
  "isdigit c = (c \<in> set ''0123456789'')"

text \<open>\<^verbatim>\<open>s.replace(sep, ",")\<close> for a separator of one character.\<close>

definition replace_by_comma :: "char \<Rightarrow> string \<Rightarrow> string" where
  "replace_by_comma sep s = map (\<lambda>c. if c = sep then CHR '','' else c) s"

text \<open>
  \<^verbatim>\<open>s.split(",")\<close>: the pieces between the commas, empty pieces included; the empty
  string splits into one empty piece.
\<close>

fun split_comma :: "string \<Rightarrow> string list" where
  "split_comma [] = [[]]"
| "split_comma (c # cs) =
     (if c = CHR '','' then [] # split_comma cs
      else (case split_comma cs of
              [] \<Rightarrow> [[c]]
            | p # ps \<Rightarrow> (c # p) # ps))"

subsection \<open>The code parser (lines 130 to 160)\<close>

text \<open>The separators that line 139 replaces by a comma: semicolon, newline, tab.\<close>

definition separators :: "char list" where
  "separators = [CHR '';'', CHR 0x0A, CHR 0x09]"

text \<open>Lines 145 to 150: keep the digits of every part, drop the parts left empty.\<close>

fun collect_codes :: "string list \<Rightarrow> string list \<Rightarrow> string list" where
  "collect_codes [] codes = codes"
| "collect_codes (part # parts) codes =
     (let code = filter isdigit part
      in if code \<noteq> [] then collect_codes parts (codes @ [code])
         else collect_codes parts codes)"

text \<open>Lines 153 to 158: the loop with the set \<^verbatim>\<open>seen\<close>.\<close>

fun unique_loop :: "string list \<Rightarrow> string set \<Rightarrow> string list \<Rightarrow> string list" where
  "unique_loop [] seen unique_codes = unique_codes"
| "unique_loop (c # cs) seen unique_codes =
     (if c \<notin> seen then unique_loop cs (insert c seen) (unique_codes @ [c])
      else unique_loop cs seen unique_codes)"

definition parse_municipality_codes :: "string \<Rightarrow> string list" where
  "parse_municipality_codes mun_codes_str =
     (if mun_codes_str = [] then []
      else
        let s = foldl (\<lambda>acc sep. replace_by_comma sep acc) mun_codes_str separators;
            parts = split_comma s;
            codes = collect_codes parts []
        in unique_loop codes {} [])"

text \<open>What the replacements of line 139 do to one character.\<close>

definition to_comma :: "char \<Rightarrow> char" where
  "to_comma c = (if c \<in> set separators then CHR '','' else c)"

subsection \<open>The network type (lines 45 and 191 to 195)\<close>

definition NET_TYPE_OPTIONS :: "string list" where
  "NET_TYPE_OPTIONS = [''drive'', ''all'', ''walk'', ''bike'', ''drive_service'']"

datatype py_error = IndexError

text \<open>
  Python's \<^verbatim>\<open>xs[i]\<close>: a negative index counts from the end, an index out of range
  raises \<^verbatim>\<open>IndexError\<close>.
\<close>

definition py_getitem :: "'a list \<Rightarrow> int \<Rightarrow> py_error + 'a" where
  "py_getitem xs i =
     (if 0 \<le> i \<and> i < int (length xs) then Inr (xs ! nat i)
      else if i < 0 \<and> - int (length xs) \<le> i then Inr (xs ! nat (int (length xs) + i))
      else Inl IndexError)"

definition select_network_type :: "int \<Rightarrow> py_error + string" where
  "select_network_type net_type_index =
     (let i = (if net_type_index < 0 \<or> net_type_index \<ge> int (length NET_TYPE_OPTIONS)
               then 0 else net_type_index)
      in py_getitem NET_TYPE_OPTIONS i)"

subsection \<open>Decimal numerals, lower case and \<^verbatim>\<open>os.path.splitext\<close>\<close>

text \<open>\<^verbatim>\<open>str(n)\<close> of an integer.\<close>

function str_nat :: "nat \<Rightarrow> string" where
  "str_nat n =
     (if n < 10 then [''0123456789'' ! n]
      else str_nat (n div 10) @ [''0123456789'' ! (n mod 10)])"
  by pat_completeness auto
termination
  by (relation "measure id") auto

definition str_int :: "int \<Rightarrow> string" where
  "str_int i = (if i < 0 then CHR ''-'' # str_nat (nat (- i)) else str_nat (nat i))"

text \<open>\<^verbatim>\<open>str.lower\<close> on ASCII text.\<close>

definition lower_char :: "char \<Rightarrow> char" where
  "lower_char c =
     (case map_of (zip ''ABCDEFGHIJKLMNOPQRSTUVWXYZ'' ''abcdefghijklmnopqrstuvwxyz'') c of
        Some l \<Rightarrow> l
      | None \<Rightarrow> c)"

definition lower :: "string \<Rightarrow> string" where
  "lower s = map lower_char s"

text \<open>\<^verbatim>\<open>p.rfind(c)\<close>: the highest index of the character, or -1.\<close>

definition rfind :: "string \<Rightarrow> char \<Rightarrow> int" where
  "rfind p c =
     (case filter (\<lambda>i. p ! i = c) (rev [0..<length p]) of
        [] \<Rightarrow> - 1
      | i # _ \<Rightarrow> int i)"

text \<open>
  The standard library's \<^verbatim>\<open>genericpath._splitext(p, sep, altsep, extsep)\<close>: the
  extension starts at the last dot of the last path component, unless only dots come
  before it in that component. Its loop over \<^verbatim>\<open>filenameIndex\<close> looks for a
  character other than the dot between the separator and the last dot.
\<close>

definition splitext_generic :: "string \<Rightarrow> char \<Rightarrow> char option \<Rightarrow> char \<Rightarrow> string \<times> string" where
  "splitext_generic p sep altsep extsep =
     (let sepIndex = (case altsep of
                        None \<Rightarrow> rfind p sep
                      | Some a \<Rightarrow> max (rfind p sep) (rfind p a));
          dotIndex = rfind p extsep
      in if dotIndex > sepIndex \<and>
            list_ex (\<lambda>i. p ! i \<noteq> extsep) [nat (sepIndex + 1)..<nat dotIndex]
         then (take (nat dotIndex) p, drop (nat dotIndex) p)
         else (p, []))"

text \<open>\<^verbatim>\<open>os.path.splitext\<close> of \<^verbatim>\<open>posixpath\<close>.\<close>

definition splitext :: "string \<Rightarrow> string \<times> string" where
  "splitext p = splitext_generic p (CHR ''/'') None (CHR ''.'')"

subsection \<open>JSON values and the objects of the external libraries\<close>

datatype json =
    JNull
  | JBool bool
  | JNum int
  | JStr string
  | JList "json list"
  | JDict "(string \<times> json) list"

text \<open>
  \<open>JDict\<close> lists the items of the parsed dict, every key once. What
  \<^verbatim>\<open>data[key]\<close> raises: a dict without the key, or a value that is no dict.
\<close>

datatype py_exc = KeyError string | TypeError

fun getitem_str :: "json \<Rightarrow> string \<Rightarrow> py_exc + json" where
  "getitem_str (JDict items) key =
     (case map_of items key of None \<Rightarrow> Inl (KeyError key) | Some v \<Rightarrow> Inr v)"
| "getitem_str _ key = Inl TypeError"

text \<open>\<^verbatim>\<open>data[k1][k2]...\<close>, left to right.\<close>

fun getpath :: "json \<Rightarrow> string list \<Rightarrow> py_exc + json" where
  "getpath v [] = Inr v"
| "getpath v (key # keys) =
     (case getitem_str v key of Inl e \<Rightarrow> Inl e | Inr w \<Rightarrow> getpath w keys)"

text \<open>
  A geometry and a network graph are handles. A boundary table (the GeoDataFrame of
  \<^verbatim>\<open>geocode_to_gdf\<close>) is the list of the geometries of its rows: \<^verbatim>\<open>.empty\<close> is the
  empty list, \<^verbatim>\<open>.geometry.iloc[0]\<close> its first element. Of the edge table the
  program reads \<^verbatim>\<open>.crs\<close> and \<^verbatim>\<open>len\<close>.
\<close>

type_synonym geometry = nat
type_synonym gdf = "geometry list"
type_synonym graph = nat

record edge_table =
  edges_crs :: "string option"
  edges_len :: nat
  edges_id :: nat

record response =
  status_code :: int
  json_body :: "json option"  \<comment> \<open>\<open>None\<close>: \<^verbatim>\<open>r.json()\<close> raises \<^verbatim>\<open>JSONDecodeError\<close>\<close>

record vlayer =
  vlayer_uri :: string
  vlayer_name :: string

text \<open>
  The outcome of every call into the host and the libraries; \<open>Inl\<close> carries the text of
  the exception raised. During a run, equal calls get equal answers.
\<close>

record env =
  import_osmnx :: bool
  import_geopandas :: bool
  requests_get :: "string \<Rightarrow> string + response"
  py_repr :: "json \<Rightarrow> string"  \<comment> \<open>\<^verbatim>\<open>str\<close> of a value that is no string\<close>
  geocode_to_gdf :: "string \<Rightarrow> string + gdf"
  project_gdf :: "gdf \<Rightarrow> string + gdf"
  gdf_buffer :: "gdf \<Rightarrow> real \<Rightarrow> string + gdf"
  gdf_to_crs :: "gdf \<Rightarrow> nat \<Rightarrow> string + gdf"
  graph_from_polygon :: "geometry \<Rightarrow> string \<Rightarrow> string + graph"
  project_graph :: "graph \<Rightarrow> string + graph"
  graph_to_gdfs :: "graph \<Rightarrow> string + edge_table"
  set_crs_none :: "edge_table \<Rightarrow> string + edge_table"
  to_file :: "edge_table \<Rightarrow> string \<Rightarrow> string \<Rightarrow> string option"
  layer_is_valid :: "vlayer \<Rightarrow> bool"

subsection \<open>Messages, exceptions and the state of a run\<close>

text \<open>
  The texts raised in a \<^verbatim>\<open>QgsProcessingException\<close>, one constructor for each template,
  with the values that fill its placeholders (the source line in the comment).
\<close>

datatype fatal =
    NoCodes  \<comment> \<open>202\<close>
  | OsmnxMissing  \<comment> \<open>257\<close>
  | GeopandasMissing  \<comment> \<open>273\<close>
  | IbgeConnectError string  \<comment> \<open>300: the exception\<close>
  | IbgeStatusError int string  \<comment> \<open>306: status, code\<close>
  | IbgeNotJson  \<comment> \<open>315\<close>
  | IbgeNoMunicipality string  \<comment> \<open>323: code\<close>
  | IbgeUnexpected string py_exc  \<comment> \<open>335: code, the exception\<close>
  | BoundaryError string string  \<comment> \<open>370: query, the exception\<close>
  | BoundaryEmpty string  \<comment> \<open>377: query\<close>
  | DownloadError string string  \<comment> \<open>420: query, the exception\<close>
  | ProjectError string string  \<comment> \<open>431: query, the exception\<close>
  | ConvertError string string  \<comment> \<open>446: query, the exception\<close>
  | LayerSaveError string string  \<comment> \<open>487: layer, the exception\<close>
  | LayerLoadError string  \<comment> \<open>506: layer\<close>

datatype exc = QgsProcessingException fatal | Uncaught py_error

text \<open>The texts sent to \<^verbatim>\<open>feedback\<close>.\<close>

datatype message =
    CodesIdentified "string list"  \<comment> \<open>207\<close>
  | CodeLengthWarning string  \<comment> \<open>216\<close>
  | ShapefileSelected string  \<comment> \<open>229: base\<close>
  | OnlyGpkgCompatible  \<comment> \<open>239\<close>
  | OutputGpkg string  \<comment> \<open>248\<close>
  | ProcessingMunicipality nat nat string  \<comment> \<open>284\<close>
  | QueryingIbge string  \<comment> \<open>294\<close>
  | MunicipalityIdentified string string string  \<comment> \<open>344\<close>
  | NetworkTypeSelected string  \<comment> \<open>350\<close>
  | BufferRequested real  \<comment> \<open>356\<close>
  | NoBuffer  \<comment> \<open>361\<close>
  | BufferError string string  \<comment> \<open>401: query, the exception\<close>
  | DownloadingNetwork  \<comment> \<open>410\<close>
  | SegmentsObtained string string nat  \<comment> \<open>452\<close>
  | RemovingCrs string  \<comment> \<open>462\<close>
  | CrsRemoveFailed string  \<comment> \<open>471: the exception\<close>
  | LayerAdded string string string  \<comment> \<open>516\<close>
  | LayersCreated "string list"  \<comment> \<open>525\<close>

datatype log_entry = PushInfo message | ReportError message

text \<open>The calls that go to the network.\<close>

datatype call =
    HttpGet string
  | GeocodeToGdf string
  | GraphFromPolygon geometry string

text \<open>
  \<open>written\<close> lists the layers the run has written, in order: the path of the package,
  the name of the layer and the table. \<open>created_layers\<close> is the program's variable.
\<close>

record run_state =
  feedback :: "log_entry list"
  calls :: "call list"
  written :: "(string \<times> string \<times> edge_table) list"
  created_layers :: "string list"
  temp_store :: "vlayer list"
  project :: "vlayer list"

definition init_state :: run_state where
  "init_state = \<lparr>feedback = [], calls = [], written = [], created_layers = [],
     temp_store = [], project = []\<rparr>"

definition push_info :: "message \<Rightarrow> run_state \<Rightarrow> run_state" where
  "push_info m st = st\<lparr>feedback := feedback st @ [PushInfo m]\<rparr>"

definition report_error :: "message \<Rightarrow> run_state \<Rightarrow> run_state" where
  "report_error m st = st\<lparr>feedback := feedback st @ [ReportError m]\<rparr>"

definition net_call :: "call \<Rightarrow> run_state \<Rightarrow> run_state" where
  "net_call c st = st\<lparr>calls := calls st @ [c]\<rparr>"

subsection \<open>The output path (lines 222 to 245)\<close>

definition normalize_output_path :: "string \<Rightarrow> run_state \<Rightarrow> string \<times> run_state" where
  "normalize_output_path out_path_user st0 =
     (let (base, ext0) = splitext out_path_user;
          ext1 = (if ext0 = [] then ''.gpkg'' else ext0);
          (ext2, st1) = (if lower ext1 = ''.shp''
                         then (''.gpkg'', report_error (ShapefileSelected base) st0)
                         else (ext1, st0));
          (ext3, st2) = (if lower ext2 \<noteq> ''.gpkg''
                         then (''.gpkg'', push_info OnlyGpkgCompatible st1)
                         else (ext2, st1))
      in (base @ ext3, st2))"

subsection \<open>The registry lookup (lines 288 to 347)\<close>

definition ibge_url :: "string \<Rightarrow> string" where
  "ibge_url mun_code =
     ''https://servicodados.ibge.gov.br/api/v1/localidades/municipios/'' @ mun_code"

text \<open>Lines 319 to 327: a list answer is reduced to its first element.\<close>

definition first_if_list :: "string \<Rightarrow> json \<Rightarrow> fatal + json" where
  "first_if_list mun_code data =
     (case data of
        JList xs \<Rightarrow> (case xs of
                       [] \<Rightarrow> Inl (IbgeNoMunicipality mun_code)
                     | d # _ \<Rightarrow> Inr d)
      | _ \<Rightarrow> Inr data)"

text \<open>Lines 329 to 338: the two fields, any exception caught.\<close>

definition sigla_path :: "string list" where
  "sigla_path = [''microrregiao'', ''mesorregiao'', ''UF'', ''sigla'']"

definition read_fields :: "string \<Rightarrow> json \<Rightarrow> fatal + json \<times> json" where
  "read_fields mun_code data =
     (case getitem_str data ''nome'' of
        Inl e \<Rightarrow> Inl (IbgeUnexpected mun_code e)
      | Inr nome_mun \<Rightarrow>
          (case getpath data sigla_path of
             Inl e \<Rightarrow> Inl (IbgeUnexpected mun_code e)
           | Inr uf_sigla \<Rightarrow> Inr (nome_mun, uf_sigla)))"

text \<open>A value inside an f-string: a string as it is, anything else through \<^verbatim>\<open>str\<close>.\<close>

definition py_str :: "env \<Rightarrow> json \<Rightarrow> string" where
  "py_str env v = (case v of JStr s \<Rightarrow> s | _ \<Rightarrow> py_repr env v)"

definition place_query_of :: "string \<Rightarrow> string \<Rightarrow> string" where
  "place_query_of nome_mun uf_sigla = nome_mun @ '', '' @ uf_sigla @ '', Brasil''"

text \<open>The result: name, region and query, as they are formatted further on.\<close>

definition lookup_municipality ::
  "env \<Rightarrow> string \<Rightarrow> run_state \<Rightarrow> (fatal + string \<times> string \<times> string) \<times> run_state" where
  "lookup_municipality env mun_code st0 =
     (let url = ibge_url mun_code;
          st1 = net_call (HttpGet url) (push_info (QueryingIbge url) st0)
      in case requests_get env url of
           Inl e \<Rightarrow> (Inl (IbgeConnectError e), st1)
         | Inr r \<Rightarrow>
             if status_code r \<noteq> 200
             then (Inl (IbgeStatusError (status_code r) mun_code), st1)
             else (case json_body r of
                     None \<Rightarrow> (Inl IbgeNotJson, st1)
                   | Some data \<Rightarrow>
                       (case first_if_list mun_code data of
                          Inl f \<Rightarrow> (Inl f, st1)
                        | Inr d \<Rightarrow>
                            (case read_fields mun_code d of
                               Inl f \<Rightarrow> (Inl f, st1)
                             | Inr (nome_mun, uf_sigla) \<Rightarrow>
                                 let nome = py_str env nome_mun;
                                     uf = py_str env uf_sigla;
                                     place_query = place_query_of nome uf
                                 in (Inr (nome, uf, place_query),
                                     push_info (MunicipalityIdentified nome uf place_query)
                                       st1)))))"

subsection \<open>Boundary and buffer (lines 364 to 405)\<close>

definition fetch_boundary ::
  "env \<Rightarrow> string \<Rightarrow> run_state \<Rightarrow> (fatal + gdf \<times> geometry) \<times> run_state" where
  "fetch_boundary env place_query st0 =
     (let st1 = net_call (GeocodeToGdf place_query) st0
      in case geocode_to_gdf env place_query of
           Inl e \<Rightarrow> (Inl (BoundaryError place_query e), st1)
         | Inr place_gdf \<Rightarrow>
             (case place_gdf of
                [] \<Rightarrow> (Inl (BoundaryEmpty place_query), st1)
              | geom # _ \<Rightarrow> (Inr (place_gdf, geom), st1)))"

text \<open>\<^verbatim>\<open>buffer_m and buffer_m > 0\<close>\<close>

definition positive_buffer :: "real \<Rightarrow> bool" where
  "positive_buffer buffer_m = (buffer_m \<noteq> 0 \<and> buffer_m > 0)"

text \<open>Dilate a projected table by the distance and go back to EPSG 4326.\<close>

definition buffer_to_wgs84 :: "env \<Rightarrow> real \<Rightarrow> string + gdf \<Rightarrow> string + gdf" where
  "buffer_to_wgs84 env buffer_m projected =
     (case projected of
        Inl e \<Rightarrow> Inl e
      | Inr place_proj \<Rightarrow>
          (case gdf_buffer env place_proj buffer_m of
             Inl e \<Rightarrow> Inl e
           | Inr buffered \<Rightarrow> gdf_to_crs env buffered 4326))"

text \<open>Lines 386 to 390, the inner \<^verbatim>\<open>try\<close>, and lines 393 to 395, its handler.\<close>

definition buffer_primary :: "env \<Rightarrow> gdf \<Rightarrow> real \<Rightarrow> string + gdf" where
  "buffer_primary env place_gdf buffer_m =
     buffer_to_wgs84 env buffer_m (project_gdf env place_gdf)"

definition buffer_fallback :: "env \<Rightarrow> gdf \<Rightarrow> real \<Rightarrow> string + gdf" where
  "buffer_fallback env place_gdf buffer_m =
     buffer_to_wgs84 env buffer_m (gdf_to_crs env place_gdf 3857)"

text \<open>Lines 385 to 397, the body of the outer \<^verbatim>\<open>try\<close>.\<close>

definition buffered_boundary :: "env \<Rightarrow> gdf \<Rightarrow> real \<Rightarrow> string + geometry" where
  "buffered_boundary env place_gdf buffer_m =
     (let place_buff = (case buffer_primary env place_gdf buffer_m of
                          Inr b \<Rightarrow> Inr b
                        | Inl _ \<Rightarrow> buffer_fallback env place_gdf buffer_m)
      in case place_buff of
           Inl e \<Rightarrow> Inl e
         | Inr [] \<Rightarrow> Inl ''single positional indexer is out-of-bounds''
         | Inr (g # _) \<Rightarrow> Inr g)"

definition apply_buffer ::
  "env \<Rightarrow> real \<Rightarrow> string \<Rightarrow> gdf \<Rightarrow> geometry \<Rightarrow> run_state \<Rightarrow> geometry \<times> run_state" where
  "apply_buffer env buffer_m place_query place_gdf geom st =
     (if positive_buffer buffer_m
      then (case buffered_boundary env place_gdf buffer_m of
              Inr g \<Rightarrow> (g, st)
            | Inl e \<Rightarrow> (geom, report_error (BufferError place_query e) st))
      else (geom, st))"

subsection \<open>Network, edge table, layer (lines 407 to 520)\<close>

definition download_network ::
  "env \<Rightarrow> string \<Rightarrow> string \<Rightarrow> string \<Rightarrow> string \<Rightarrow> geometry \<Rightarrow> run_state
     \<Rightarrow> (fatal + edge_table) \<times> run_state" where
  "download_network env network_type nome_mun uf_sigla place_query geom st0 =
     (let st1 = net_call (GraphFromPolygon geom network_type)
                  (push_info DownloadingNetwork st0)
      in case graph_from_polygon env geom network_type of
           Inl e \<Rightarrow> (Inl (DownloadError place_query e), st1)
         | Inr G \<Rightarrow>
             (case project_graph env G of
                Inl e \<Rightarrow> (Inl (ProjectError place_query e), st1)
              | Inr G_proj \<Rightarrow>
                  (case graph_to_gdfs env G_proj of
                     Inl e \<Rightarrow> (Inl (ConvertError place_query e), st1)
                   | Inr edges \<Rightarrow>
                       (Inr edges,
                        push_info (SegmentsObtained nome_mun uf_sigla (edges_len edges))
                          st1))))"

text \<open>Lines 457 to 474: the coordinate reference system is taken off, if that works.\<close>

definition strip_crs :: "env \<Rightarrow> edge_table \<Rightarrow> run_state \<Rightarrow> edge_table \<times> run_state" where
  "strip_crs env edges st0 =
     (case edges_crs edges of
        None \<Rightarrow> (edges, st0)
      | Some crs \<Rightarrow>
          (let st1 = push_info (RemovingCrs crs) st0
           in case set_crs_none env edges of
                Inr edges' \<Rightarrow> (edges', st1)
              | Inl e \<Rightarrow> (edges, report_error (CrsRemoveFailed e) st1)))"

definition layer_name_of :: "string \<Rightarrow> string" where
  "layer_name_of mun_code = ''osm_segments_'' @ mun_code"

text \<open>Lines 480 to 491.\<close>

definition write_layer ::
  "env \<Rightarrow> string \<Rightarrow> string \<Rightarrow> edge_table \<Rightarrow> run_state \<Rightarrow> (fatal + unit) \<times> run_state" where
  "write_layer env out_path layer_name edges st =
     (case to_file env edges out_path layer_name of
        Some e \<Rightarrow> (Inl (LayerSaveError layer_name e), st)
      | None \<Rightarrow>
          (Inr (),
           st\<lparr>written := written st @ [(out_path, layer_name, edges)],
              created_layers := created_layers st @ [layer_name]\<rparr>))"

text \<open>Lines 493 to 520.\<close>

definition load_layer ::
  "env \<Rightarrow> string \<Rightarrow> real \<Rightarrow> string \<Rightarrow> string \<Rightarrow> string \<Rightarrow> string \<Rightarrow> run_state
     \<Rightarrow> (fatal + unit) \<times> run_state" where
  "load_layer env network_type buffer_m out_path layer_name nome_mun uf_sigla st =
     (let uri = out_path @ ''|layername='' @ layer_name;
          name0 = ''OSMnx_'' @ nome_mun @ ''_'' @ uf_sigla @ ''_'' @ network_type
                    @ ''_segments'';
          name1 = (if positive_buffer buffer_m
                   then name0 @ ''_buf'' @ str_int \<lfloor>buffer_m\<rfloor> @ ''m''
                   else name0);
          vl = \<lparr>vlayer_uri = uri, vlayer_name = name1\<rparr>
      in if \<not> layer_is_valid env vl
         then (Inl (LayerLoadError layer_name), st)
         else (Inr (),
               push_info (LayerAdded name1 out_path layer_name)
                 (st\<lparr>temp_store := temp_store st @ [vl],
                     project := project st @ [vl]\<rparr>)))"

subsection \<open>One municipality, the loop and the run (lines 162 to 530)\<close>

text \<open>What the loop reads and does not change.\<close>

record config =
  cfg_network_type :: string
  cfg_buffer_m :: real
  cfg_out_path :: string
  cfg_total :: nat  \<comment> \<open>\<^verbatim>\<open>len(codes)\<close>\<close>

text \<open>Lines 476 to 520: the layer is written, then loaded.\<close>

definition save_layer ::
  "env \<Rightarrow> config \<Rightarrow> string \<Rightarrow> string \<Rightarrow> string \<Rightarrow> edge_table \<Rightarrow> run_state
     \<Rightarrow> (fatal + unit) \<times> run_state" where
  "save_layer env cfg mun_code nome_mun uf_sigla edges st0 =
     (let layer_name = layer_name_of mun_code
      in case write_layer env (cfg_out_path cfg) layer_name edges st0 of
           (Inl f, st1) \<Rightarrow> (Inl f, st1)
         | (Inr _, st1) \<Rightarrow>
             load_layer env (cfg_network_type cfg) (cfg_buffer_m cfg) (cfg_out_path cfg)
               layer_name nome_mun uf_sigla st1)"

text \<open>Lines 407 to 520: from the polygon to the loaded layer.\<close>

definition finish_municipality ::
  "env \<Rightarrow> config \<Rightarrow> string \<Rightarrow> string \<Rightarrow> string \<Rightarrow> string \<Rightarrow> geometry \<Rightarrow> run_state
     \<Rightarrow> (fatal + unit) \<times> run_state" where
  "finish_municipality env cfg mun_code nome_mun uf_sigla place_query geom st0 =
     (case download_network env (cfg_network_type cfg) nome_mun uf_sigla place_query geom
             st0 of
        (Inl f, st1) \<Rightarrow> (Inl f, st1)
      | (Inr edges0, st1) \<Rightarrow>
          (let (edges, st2) = strip_crs env edges0 st1
           in save_layer env cfg mun_code nome_mun uf_sigla edges st2))"

text \<open>The body of the loop of line 281.\<close>

definition process_municipality ::
  "env \<Rightarrow> config \<Rightarrow> nat \<Rightarrow> string \<Rightarrow> run_state \<Rightarrow> (fatal + unit) \<times> run_state" where
  "process_municipality env cfg idx mun_code st0 =
     (let st1 = push_info (ProcessingMunicipality idx (cfg_total cfg) mun_code) st0
      in case lookup_municipality env mun_code st1 of
           (Inl f, st2) \<Rightarrow> (Inl f, st2)
         | (Inr (nome_mun, uf_sigla, place_query), st2) \<Rightarrow>
             (let st3 = push_info (NetworkTypeSelected (cfg_network_type cfg)) st2;
                  st4 = push_info (if positive_buffer (cfg_buffer_m cfg)
                                   then BufferRequested (cfg_buffer_m cfg)
                                   else NoBuffer) st3
              in case fetch_boundary env place_query st4 of
                   (Inl f, st5) \<Rightarrow> (Inl f, st5)
                 | (Inr (place_gdf, geom0), st5) \<Rightarrow>
                     (let (geom, st6) = apply_buffer env (cfg_buffer_m cfg) place_query
                                          place_gdf geom0 st5
                      in finish_municipality env cfg mun_code nome_mun uf_sigla
                           place_query geom st6)))"

text \<open>The loop: an exception leaves it with the state reached.\<close>

fun process_codes ::
  "env \<Rightarrow> config \<Rightarrow> nat \<Rightarrow> string list \<Rightarrow> run_state \<Rightarrow> (fatal + unit) \<times> run_state" where
  "process_codes env cfg idx [] st = (Inr (), st)"
| "process_codes env cfg idx (mun_code # rest) st =
     (case process_municipality env cfg idx mun_code st of
        (Inl f, st') \<Rightarrow> (Inl f, st')
      | (Inr _, st') \<Rightarrow> process_codes env cfg (idx + 1) rest st')"

text \<open>Lines 212 to 219.\<close>

fun warn_lengths :: "string list \<Rightarrow> run_state \<Rightarrow> run_state" where
  "warn_lengths [] st = st"
| "warn_lengths (code # rest) st =
     warn_lengths rest
       (if length code \<notin> {6, 7} then report_error (CodeLengthWarning code) st else st)"

record params =
  mun_codes_str :: string
  out_path_user :: string
  net_type_index :: int
  buffer_m :: real

definition PARAM_OUTPUT :: string where
  "PARAM_OUTPUT = ''OUTPUT''"

text \<open>
  \<^verbatim>\<open>processAlgorithm\<close>: what it returns or raises, and the state it leaves.
\<close>

definition processAlgorithm ::
  "env \<Rightarrow> params \<Rightarrow> (exc + (string \<rightharpoonup> string)) \<times> run_state" where
  "processAlgorithm env p =
     (case select_network_type (net_type_index p) of
        Inl e \<Rightarrow> (Inl (Uncaught e), init_state)
      | Inr network_type \<Rightarrow>
          (let codes = parse_municipality_codes (mun_codes_str p)
           in if codes = [] then (Inl (QgsProcessingException NoCodes), init_state)
              else
                (let st1 = push_info (CodesIdentified codes) init_state;
                     st2 = warn_lengths codes st1;
                     (out_path, st3) = normalize_output_path (out_path_user p) st2;
                     st4 = push_info (OutputGpkg out_path) st3
                 in if \<not> import_osmnx env
                    then (Inl (QgsProcessingException OsmnxMissing), st4)
                    else if \<not> import_geopandas env
                    then (Inl (QgsProcessingException GeopandasMissing), st4)
                    else
                      (let cfg = \<lparr>cfg_network_type = network_type,
                                  cfg_buffer_m = buffer_m p,
                                  cfg_out_path = out_path,
                                  cfg_total = length codes\<rparr>
                       in case process_codes env cfg 1 codes st4 of
                            (Inl f, st5) \<Rightarrow> (Inl (QgsProcessingException f), st5)
                          | (Inr _, st5) \<Rightarrow>
                              (let st6 = (if created_layers st5 \<noteq> []
                                          then push_info (LayersCreated (created_layers st5))
                                                 st5
                                          else st5)
                               in (Inr [PARAM_OUTPUT \<mapsto> out_path], st6))))))"

subsection \<open>Reading a run\<close>

text \<open>
  The state in which the loop of line 281 starts and the values it reads (lines 191 to
  249), for an input with at least one code.
\<close>

definition loop_start :: "params \<Rightarrow> run_state" where
  "loop_start p =
     (let codes = parse_municipality_codes (mun_codes_str p);
          st2 = warn_lengths codes (push_info (CodesIdentified codes) init_state);
          (out_path, st3) = normalize_output_path (out_path_user p) st2
      in push_info (OutputGpkg out_path) st3)"

definition loop_config :: "params \<Rightarrow> config" where
  "loop_config p =
     \<lparr>cfg_network_type =
        (if net_type_index p < 0 \<or> 5 \<le> net_type_index p then ''drive''
         else NET_TYPE_OPTIONS ! nat (net_type_index p)),
      cfg_buffer_m = buffer_m p,
      cfg_out_path = fst (normalize_output_path (out_path_user p) init_state),
      cfg_total = length (parse_municipality_codes (mun_codes_str p))\<rparr>"

text \<open>The addresses asked of the registry, in order.\<close>

fun http_urls :: "call list \<Rightarrow> string list" where
  "http_urls [] = []"
| "http_urls (HttpGet url # cs) = url # http_urls cs"
| "http_urls (GeocodeToGdf q # cs) = http_urls cs"
| "http_urls (GraphFromPolygon g nt # cs) = http_urls cs"

text \<open>The messages sent through \<^verbatim>\<open>reportError\<close>, in order.\<close>

fun reported_errors :: "log_entry list \<Rightarrow> message list" where
  "reported_errors [] = []"
| "reported_errors (ReportError m # es) = m # reported_errors es"
| "reported_errors (PushInfo m # es) = reported_errors es"

text \<open>Path and name of the layers written, in order.\<close>

definition layer_names :: "run_state \<Rightarrow> (string \<times> string) list" where
  "layer_names st = map (\<lambda>(path, layer, edges). (path, layer)) (written st)"

text \<open>
  The values that fill the placeholders of a fatal message: a string as it is, a number
  in decimal, of a \<^verbatim>\<open>KeyError\<close> the key. The fixed words of the templates hold no
  digit, so a municipality code is named by a message when it occurs in one of these
  values.
\<close>

fun placeholder_values :: "fatal \<Rightarrow> string list" where
  "placeholder_values NoCodes = []"
| "placeholder_values OsmnxMissing = []"
| "placeholder_values GeopandasMissing = []"
| "placeholder_values (IbgeConnectError e) = [e]"
| "placeholder_values (IbgeStatusError status code) = [str_int status, code]"
| "placeholder_values IbgeNotJson = []"
| "placeholder_values (IbgeNoMunicipality code) = [code]"
| "placeholder_values (IbgeUnexpected code (KeyError key)) = [code, key]"
| "placeholder_values (IbgeUnexpected code TypeError) = [code]"
| "placeholder_values (BoundaryError q e) = [q, e]"
| "placeholder_values (BoundaryEmpty q) = [q]"
| "placeholder_values (DownloadError q e) = [q, e]"
| "placeholder_values (ProjectError q e) = [q, e]"
| "placeholder_values (ConvertError q e) = [q, e]"
| "placeholder_values (LayerSaveError layer e) = [layer, e]"
| "placeholder_values (LayerLoadError layer) = [layer]"

definition names_code :: "fatal \<Rightarrow> string \<Rightarrow> bool" where
  "names_code f code = list_ex (sublist code) (placeholder_values f)"

text \<open>The stage of the loop body that raises a message.\<close>

datatype stage =
    RegistryLookup
  | BoundaryFetch
  | NetworkDownload
  | Reprojection
  | EdgeTableConversion
  | LayerWrite
  | LayerLoad

fun failed_stage :: "fatal \<Rightarrow> stage option" where
  "failed_stage (IbgeConnectError e) = Some RegistryLookup"
| "failed_stage (IbgeStatusError status code) = Some RegistryLookup"
| "failed_stage IbgeNotJson = Some RegistryLookup"
| "failed_stage (IbgeNoMunicipality code) = Some RegistryLookup"
| "failed_stage (IbgeUnexpected code e) = Some RegistryLookup"
| "failed_stage (BoundaryError q e) = Some BoundaryFetch"
| "failed_stage (BoundaryEmpty q) = Some BoundaryFetch"
| "failed_stage (DownloadError q e) = Some NetworkDownload"
| "failed_stage (ProjectError q e) = Some Reprojection"
| "failed_stage (ConvertError q e) = Some EdgeTableConversion"
| "failed_stage (LayerSaveError layer e) = Some LayerWrite"
| "failed_stage (LayerLoadError layer) = Some LayerLoad"
| "failed_stage NoCodes = None"
| "failed_stage OsmnxMissing = None"
| "failed_stage GeopandasMissing = None"

text \<open>
  What an iteration that raises leaves behind: nothing new in the package, unless the
  layer was written and then could not be loaded. What an iteration that returns
  leaves behind: its layer, after the layers there were.
\<close>

definition failure_leaves :: "config \<Rightarrow> string \<Rightarrow> fatal \<Rightarrow> run_state \<Rightarrow> run_state \<Rightarrow> bool" where
  "failure_leaves cfg c f st st' \<longleftrightarrow>
     (\<exists>s. failed_stage f = Some s) \<and>
     (failed_stage f \<noteq> Some LayerLoad \<longrightarrow>
        written st' = written st \<and> created_layers st' = created_layers st) \<and>
     (failed_stage f = Some LayerLoad \<longrightarrow>
        (\<exists>e. written st' = written st @ [(cfg_out_path cfg, layer_name_of c, e)]) \<and>
        created_layers st' = created_layers st @ [layer_name_of c])"

definition success_leaves :: "config \<Rightarrow> string \<Rightarrow> run_state \<Rightarrow> run_state \<Rightarrow> bool" where
  "success_leaves cfg c st st' \<longleftrightarrow>
     (\<exists>e. written st' = written st @ [(cfg_out_path cfg, layer_name_of c, e)]) \<and>
     created_layers st' = created_layers st @ [layer_name_of c]"

text \<open>
  The package file as the list of the names of its layers. The run never empties or
  removes the file: each \<^verbatim>\<open>to_file\<close> of line 483 finds the layers that are there and
  puts its layer after them; a layer that had the same name is replaced by it.
  \<open>package_after existing path st\<close> lists the layers of the file at \<open>path\<close> after a run
  that leaves \<open>st\<close>, when the file held the layers \<open>existing\<close> before the run.
\<close>

definition add_layer :: "string list \<Rightarrow> string \<Rightarrow> string list" where
  "add_layer layers layer_name = filter (\<lambda>l. l \<noteq> layer_name) layers @ [layer_name]"

definition package_after :: "string list \<Rightarrow> string \<Rightarrow> run_state \<Rightarrow> string list" where
  "package_after existing path st =
     foldl add_layer existing (map snd (filter (\<lambda>l. fst l = path) (layer_names st)))"

text \<open>
  The failure of a stage for one code, told from the answers of the environment alone.
  \<open>resolves\<close>: the lookup gives name, region and query. \<open>polygon_used\<close>: the polygon
  the network is asked for (lines 381 to 405). \<open>reaches_download\<close> and
  \<open>reaches_write\<close>: the stages before the download, and before the write, succeed.
  \<open>table_written\<close>: the table after lines 457 to 474. \<open>loaded_layer\<close>: the layer of
  lines 495 to 501. \<open>stage_fails\<close> has one rule for every \<^verbatim>\<open>raise\<close> of the loop body.
\<close>

inductive resolves :: "env \<Rightarrow> string \<Rightarrow> string \<Rightarrow> string \<Rightarrow> string \<Rightarrow> bool"
  for env :: env and c :: string where
  resolvesI:
    "requests_get env (ibge_url c) = Inr r \<Longrightarrow> status_code r = 200 \<Longrightarrow>
     json_body r = Some data \<Longrightarrow> first_if_list c data = Inr d \<Longrightarrow>
     getitem_str d ''nome'' = Inr nome_mun \<Longrightarrow> getpath d sigla_path = Inr uf_sigla \<Longrightarrow>
     resolves env c (py_str env nome_mun) (py_str env uf_sigla)
       (place_query_of (py_str env nome_mun) (py_str env uf_sigla))"

definition polygon_used :: "env \<Rightarrow> real \<Rightarrow> gdf \<Rightarrow> geometry \<Rightarrow> geometry" where
  "polygon_used env b place_gdf geom =
     (if positive_buffer b
      then (case buffered_boundary env place_gdf b of
              Inr g \<Rightarrow> g
            | Inl e \<Rightarrow> geom)
      else geom)"

inductive reaches_download ::
  "env \<Rightarrow> config \<Rightarrow> string \<Rightarrow> string \<Rightarrow> string \<Rightarrow> string \<Rightarrow> geometry \<Rightarrow> bool"
  for env :: env and cfg :: config and c :: string where
  reaches_downloadI:
    "resolves env c n u q \<Longrightarrow> geocode_to_gdf env q = Inr (g # rest) \<Longrightarrow>
     reaches_download env cfg c n u q (polygon_used env (cfg_buffer_m cfg) (g # rest) g)"

definition table_written :: "env \<Rightarrow> edge_table \<Rightarrow> edge_table" where
  "table_written env edges =
     (case edges_crs edges of
        None \<Rightarrow> edges
      | Some crs \<Rightarrow> (case set_crs_none env edges of Inr edges' \<Rightarrow> edges' | Inl e \<Rightarrow> edges))"

inductive reaches_write ::
  "env \<Rightarrow> config \<Rightarrow> string \<Rightarrow> string \<Rightarrow> string \<Rightarrow> edge_table \<Rightarrow> bool"
  for env :: env and cfg :: config and c :: string where
  reaches_writeI:
    "reaches_download env cfg c n u q geom \<Longrightarrow>
     graph_from_polygon env geom (cfg_network_type cfg) = Inr G \<Longrightarrow>
     project_graph env G = Inr G_proj \<Longrightarrow> graph_to_gdfs env G_proj = Inr edges \<Longrightarrow>
     reaches_write env cfg c n u (table_written env edges)"

definition loaded_layer :: "config \<Rightarrow> string \<Rightarrow> string \<Rightarrow> string \<Rightarrow> vlayer" where
  "loaded_layer cfg c nome_mun uf_sigla =
     \<lparr>vlayer_uri = cfg_out_path cfg @ ''|layername='' @ layer_name_of c,
      vlayer_name =
        (if positive_buffer (cfg_buffer_m cfg)
         then ''OSMnx_'' @ nome_mun @ ''_'' @ uf_sigla @ ''_'' @ cfg_network_type cfg
                @ ''_segments'' @ ''_buf'' @ str_int \<lfloor>cfg_buffer_m cfg\<rfloor> @ ''m''
         else ''OSMnx_'' @ nome_mun @ ''_'' @ uf_sigla @ ''_'' @ cfg_network_type cfg
                @ ''_segments'')\<rparr>"

inductive stage_fails :: "env \<Rightarrow> config \<Rightarrow> string \<Rightarrow> stage \<Rightarrow> fatal \<Rightarrow> bool"
  for env :: env and cfg :: config and c :: string where
  connection:
    "requests_get env (ibge_url c) = Inl e \<Longrightarrow>
     stage_fails env cfg c RegistryLookup (IbgeConnectError e)"
| status:
    "requests_get env (ibge_url c) = Inr r \<Longrightarrow> status_code r \<noteq> 200 \<Longrightarrow>
     stage_fails env cfg c RegistryLookup (IbgeStatusError (status_code r) c)"
| not_json:
    "requests_get env (ibge_url c) = Inr r \<Longrightarrow> status_code r = 200 \<Longrightarrow>
     json_body r = None \<Longrightarrow>
     stage_fails env cfg c RegistryLookup IbgeNotJson"
| empty_list:
    "requests_get env (ibge_url c) = Inr r \<Longrightarrow> status_code r = 200 \<Longrightarrow>
     json_body r = Some (JList []) \<Longrightarrow>
     stage_fails env cfg c RegistryLookup (IbgeNoMunicipality c)"
| no_name:
    "requests_get env (ibge_url c) = Inr r \<Longrightarrow> status_code r = 200 \<Longrightarrow>
     json_body r = Some data \<Longrightarrow> first_if_list c data = Inr d \<Longrightarrow>
     getitem_str d ''nome'' = Inl e \<Longrightarrow>
     stage_fails env cfg c RegistryLookup (IbgeUnexpected c e)"
| no_region:
    "requests_get env (ibge_url c) = Inr r \<Longrightarrow> status_code r = 200 \<Longrightarrow>
     json_body r = Some data \<Longrightarrow> first_if_list c data = Inr d \<Longrightarrow>
     getitem_str d ''nome'' = Inr nome_mun \<Longrightarrow> getpath d sigla_path = Inl e \<Longrightarrow>
     stage_fails env cfg c RegistryLookup (IbgeUnexpected c e)"
| boundary:
    "resolves env c n u q \<Longrightarrow> geocode_to_gdf env q = Inl e \<Longrightarrow>
     stage_fails env cfg c BoundaryFetch (BoundaryError q e)"
| boundary_empty:
    "resolves env c n u q \<Longrightarrow> geocode_to_gdf env q = Inr [] \<Longrightarrow>
     stage_fails env cfg c BoundaryFetch (BoundaryEmpty q)"
| download:
    "reaches_download env cfg c n u q geom \<Longrightarrow>
     graph_from_polygon env geom (cfg_network_type cfg) = Inl e \<Longrightarrow>
     stage_fails env cfg c NetworkDownload (DownloadError q e)"
| reprojection:
    "reaches_download env cfg c n u q geom \<Longrightarrow>
     graph_from_polygon env geom (cfg_network_type cfg) = Inr G \<Longrightarrow>
     project_graph env G = Inl e \<Longrightarrow>
     stage_fails env cfg c Reprojection (ProjectError q e)"
| conversion:
    "reaches_download env cfg c n u q geom \<Longrightarrow>
     graph_from_polygon env geom (cfg_network_type cfg) = Inr G \<Longrightarrow>
     project_graph env G = Inr G_proj \<Longrightarrow> graph_to_gdfs env G_proj = Inl e \<Longrightarrow>
     stage_fails env cfg c EdgeTableConversion (ConvertError q e)"
| layer_write:
    "reaches_write env cfg c n u edges \<Longrightarrow>
     to_file env edges (cfg_out_path cfg) (layer_name_of c) = Some e \<Longrightarrow>
     stage_fails env cfg c LayerWrite (LayerSaveError (layer_name_of c) e)"
| layer_load:
    "reaches_write env cfg c n u edges \<Longrightarrow>
     to_file env edges (cfg_out_path cfg) (layer_name_of c) = None \<Longrightarrow>
     \<not> layer_is_valid env (loaded_layer cfg c n u) \<Longrightarrow>
     stage_fails env cfg c LayerLoad (LayerLoadError (layer_name_of c))"

subsection \<open>Sample environments\<close>

text \<open>A registry answer of the expected shape, and services that all succeed.\<close>

definition sample_answer :: json where
  "sample_answer =
     JDict [(''id'', JNum 4314902), (''nome'', JStr ''Porto Alegre''),
       (''microrregiao'', JDict [(''mesorregiao'', JDict [(''UF'',
          JDict [(''sigla'', JStr ''RS'')])])])]"

definition sample_env :: env where
  "sample_env =
     \<lparr>import_osmnx = True, import_geopandas = True,
      requests_get = (\<lambda>url. Inr \<lparr>status_code = 200, json_body = Some sample_answer\<rparr>),
      py_repr = (\<lambda>v. ''?''),
      geocode_to_gdf = (\<lambda>q. Inr [1]),
      project_gdf = (\<lambda>g. Inr g),
      gdf_buffer = (\<lambda>g d. Inr (map Suc g)),
      gdf_to_crs = (\<lambda>g epsg. Inr g),
      graph_from_polygon = (\<lambda>g nt. Inr g),
      project_graph = (\<lambda>G. Inr G),
      graph_to_gdfs = (\<lambda>G. Inr \<lparr>edges_crs = Some ''EPSG:32722'', edges_len = 10,
                                 edges_id = G\<rparr>),
      set_crs_none = (\<lambda>e. Inr (e\<lparr>edges_crs := None\<rparr>)),
      to_file = (\<lambda>e path layer. None),
      layer_is_valid = (\<lambda>v. True)\<rparr>"

definition sample_params :: params where
  "sample_params =
     \<lparr>mun_codes_str = ''4314902; 4305108'', out_path_user = ''/tmp/redes.shp'',
      net_type_index = 2, buffer_m = 100\<rparr>"

definition sample_config :: config where
  "sample_config =
     \<lparr>cfg_network_type = ''walk'', cfg_buffer_m = 100, cfg_out_path = ''/tmp/redes.gpkg'',
      cfg_total = 2\<rparr>"

text \<open>The edge table that \<open>sample_env\<close> gives for the polygon 1.\<close>

definition sample_edges :: edge_table where
  "sample_edges = \<lparr>edges_crs = Some ''EPSG:32722'', edges_len = 10, edges_id = 1\<rparr>"

text \<open>The registry answers 200 with a body that is no JSON.\<close>

definition not_json_env :: env where
  "not_json_env =
     sample_env\<lparr>requests_get := (\<lambda>url. Inr \<lparr>status_code = 200, json_body = None\<rparr>)\<rparr>"

text \<open>The registry answers 404.\<close>

definition not_found_env :: env where
  "not_found_env =
     sample_env\<lparr>requests_get := (\<lambda>url. Inr \<lparr>status_code = 404, json_body = None\<rparr>)\<rparr>"

text \<open>The registry answers with a list of one object.\<close>

definition list_answer_env :: env where
  "list_answer_env =
     sample_env\<lparr>requests_get :=
        (\<lambda>url. Inr \<lparr>status_code = 200, json_body = Some (JList [sample_answer])\<rparr>)\<rparr>"



text \<open>Taking the coordinate reference system off raises.\<close>

definition crs_fails_env :: env where
  "crs_fails_env = sample_env\<lparr>set_crs_none := (\<lambda>e. Inl ''no override'')\<rparr>"





section \<open>Properties\<close>

subsection \<open>The code parser\<close>

lemma collect_codes_eq:
  "collect_codes parts codes = codes @ filter (\<lambda>t. t \<noteq> []) (map (filter isdigit) parts)"
  by (induction parts arbitrary: codes) (simp_all add: Let_def)

lemma remdups_snoc: "remdups (ys @ [c]) = remdups (filter (\<lambda>x. x \<noteq> c) ys) @ [c]"
  by (induction ys) auto

lemma unique_loop_eq:
  "unique_loop cs (set acc) acc = acc @ rev (remdups (rev (filter (\<lambda>c. c \<notin> set acc) cs)))"
proof (induction cs arbitrary: acc)
  case Nil
  then show ?case by simp
next
  case (Cons c cs)
  show ?case
  proof (cases "c \<in> set acc")
    case True
    then show ?thesis using Cons.IH [of acc] by simp
  next
    case False
    have "unique_loop (c # cs) (set acc) acc = unique_loop cs (set (acc @ [c])) (acc @ [c])"
      using False by simp
    also have "\<dots> = (acc @ [c]) @ rev (remdups (rev (filter (\<lambda>x. x \<notin> set (acc @ [c])) cs)))"
      by (rule Cons.IH)
    finally show ?thesis using False
      by (simp add: remdups_snoc rev_filter conj_commute)
  qed
qed

lemma normalised_eq:
  "foldl (\<lambda>acc sep. replace_by_comma sep acc) s separators = map to_comma s"
  by (simp add: separators_def replace_by_comma_def to_comma_def)

text \<open>
  The parser in closed form: the digits of every comma-separated piece, empty results
  dropped, each code at its first place.
\<close>

lemma parse_eq:
  "parse_municipality_codes s =
     rev (remdups (rev (filter (\<lambda>t. t \<noteq> [])
       (map (filter isdigit) (split_comma (map to_comma s))))))"
proof (cases "s = []")
  case True
  then show ?thesis by (simp add: parse_municipality_codes_def)
next
  case False
  then show ?thesis
    using unique_loop_eq [of _ "[]"]
    by (simp add: parse_municipality_codes_def normalised_eq collect_codes_eq)
qed

lemma parse_distinct: "distinct (parse_municipality_codes s)"
  by (simp add: parse_eq)

lemma parse_tokens:
  assumes "t \<in> set (parse_municipality_codes s)"
  shows "t \<noteq> [] \<and> (\<forall>c \<in> set t. isdigit c)"
  using assms by (auto simp: parse_eq)

lemma to_comma_idem: "sep \<in> set separators \<Longrightarrow> to_comma (if c = sep then CHR '','' else c) = to_comma c"
  by (auto simp: to_comma_def separators_def)

lemma parse_separator_is_comma:
  assumes "sep \<in> set separators"
  shows "parse_municipality_codes (replace_by_comma sep s) = parse_municipality_codes s"
  using assms by (simp add: parse_eq replace_by_comma_def to_comma_idem comp_def)

lemma concat_split_comma: "concat (split_comma s) = filter (\<lambda>c. c \<noteq> CHR '','') s"
  by (induction s) (auto split: list.splits)

lemma isdigit_to_comma: "isdigit (to_comma c) = isdigit c"
  by (auto simp: to_comma_def separators_def isdigit_def)

lemma digit_to_comma: "isdigit c \<Longrightarrow> to_comma c = c \<and> c \<noteq> CHR '',''"
  by (auto simp: to_comma_def separators_def isdigit_def)

lemma parse_empty_iff:
  "parse_municipality_codes s = [] \<longleftrightarrow> (\<forall>c \<in> set s. \<not> isdigit c)"
proof -
  have "parse_municipality_codes s = [] \<longleftrightarrow>
        (\<forall>part \<in> set (split_comma (map to_comma s)). filter isdigit part = [])"
    by (auto simp: parse_eq filter_empty_conv)
  also have "\<dots> \<longleftrightarrow> filter isdigit (concat (split_comma (map to_comma s))) = []"
    by (simp add: filter_concat filter_empty_conv)
  also have "\<dots> \<longleftrightarrow> (\<forall>c \<in> set s. \<not> isdigit c)"
  proof
    assume none: "filter isdigit (concat (split_comma (map to_comma s))) = []"
    show "\<forall>c \<in> set s. \<not> isdigit c"
    proof
      fix c assume "c \<in> set s"
      show "\<not> isdigit c"
      proof
        assume d: "isdigit c"
        then have "to_comma c = c" "c \<noteq> CHR '',''"
          using digit_to_comma by blast+
        then have "c \<in> set (concat (split_comma (map to_comma s)))"
          using \<open>c \<in> set s\<close> by (force simp: concat_split_comma)
        then show False using none d by (metis filter_empty_conv)
      qed
    qed
  next
    assume "\<forall>c \<in> set s. \<not> isdigit c"
    then show "filter isdigit (concat (split_comma (map to_comma s))) = []"
      by (auto simp: concat_split_comma filter_empty_conv isdigit_to_comma)
  qed
  finally show ?thesis .
qed

lemma parse_example:
  "parse_municipality_codes ''4305108; 4305108, 3550308'' = [''4305108'', ''3550308'']"
  by code_simp

text \<open>
  Claim C2. The parser returns distinct, non-empty tokens of digits in the order of their first
  occurrence (\<open>parse_eq\<close>, \<open>parse_distinct\<close>, \<open>parse_tokens\<close>), and semicolon,
  newline and tab act as the comma does (\<open>parse_separator_is_comma\<close>). A space does
  not: it is a character that is no digit and is dropped inside its piece, so two codes
  with only a space between them are read as one code of fourteen digits, where the
  comma gives two codes.
\<close>

theorem space_is_not_a_separator:
  "parse_municipality_codes ''4305108 3550308'' = [''43051083550308''] \<and>
   parse_municipality_codes ''4305108,3550308'' = [''4305108'', ''3550308'']"
  by code_simp

subsection \<open>The fields of the state\<close>

lemma push_info_fields [simp]:
  "written (push_info m st) = written st"
  "created_layers (push_info m st) = created_layers st"
  "calls (push_info m st) = calls st"
  "feedback (push_info m st) = feedback st @ [PushInfo m]"
  by (simp_all add: push_info_def)

lemma report_error_fields [simp]:
  "written (report_error m st) = written st"
  "created_layers (report_error m st) = created_layers st"
  "calls (report_error m st) = calls st"
  "feedback (report_error m st) = feedback st @ [ReportError m]"
  by (simp_all add: report_error_def)

lemma net_call_fields [simp]:
  "written (net_call c st) = written st"
  "created_layers (net_call c st) = created_layers st"
  "calls (net_call c st) = calls st @ [c]"
  "feedback (net_call c st) = feedback st"
  by (simp_all add: net_call_def)

subsection \<open>The network type\<close>

lemma select_network_type_cases:
  "select_network_type i =
     Inr (if i < 0 \<or> 5 \<le> i then ''drive'' else NET_TYPE_OPTIONS ! nat i)"
  by (simp add: select_network_type_def py_getitem_def NET_TYPE_OPTIONS_def Let_def)

lemma run_never_uncaught: "fst (processAlgorithm env p) \<noteq> Inl (Uncaught e)"
  by (simp add: processAlgorithm_def select_network_type_cases Let_def
      split: prod.splits sum.splits)

text \<open>
  Claim C9. Whatever index the host supplies, reading the option list does not raise: an index
  below 0 or from 5 on is replaced by 0 and gives \<open>drive\<close>, an index from 0 to 4 gives
  its own option, and no run ends in an uncaught \<open>IndexError\<close>.
\<close>

theorem network_type_index_never_faults:
  "(\<exists>nt. select_network_type i = Inr nt) \<and>
   (i < 0 \<or> 5 \<le> i \<longrightarrow> select_network_type i = Inr ''drive'') \<and>
   (0 \<le> i \<and> i < 5 \<longrightarrow> select_network_type i = Inr (NET_TYPE_OPTIONS ! nat i)) \<and>
   fst (processAlgorithm env p) \<noteq> Inl (Uncaught IndexError)"
  using run_never_uncaught [of env p IndexError]
  by (auto simp: select_network_type_cases)

theorem network_type_index_never_faults_witness:
  "select_network_type 7 = Inr ''drive'' \<and>
   select_network_type (- 1) = Inr ''drive'' \<and>
   select_network_type 3 = Inr ''bike''"
  using network_type_index_never_faults [of 7 sample_env sample_params]
    network_type_index_never_faults [of "- 1" sample_env sample_params]
    network_type_index_never_faults [of 3 sample_env sample_params]
  by (simp add: NET_TYPE_OPTIONS_def)

subsection \<open>No code at all\<close>

lemma run_without_codes:
  assumes "parse_municipality_codes (mun_codes_str p) = []"
  shows "processAlgorithm env p = (Inl (QgsProcessingException NoCodes), init_state)"
  using assms by (simp add: processAlgorithm_def select_network_type_cases)

text \<open>
  Claim C7. An input parses to no code exactly when it holds no digit (the empty input
  included); the run then raises the message that asks for at least one code, and does
  so in the initial state: no call to the network was made, nothing was written.
\<close>

theorem no_codes_aborts_before_any_request:
  "(parse_municipality_codes (mun_codes_str p) = [] \<longleftrightarrow>
      (\<forall>c \<in> set (mun_codes_str p). \<not> isdigit c)) \<and>
   (parse_municipality_codes (mun_codes_str p) = [] \<longrightarrow>
      fst (processAlgorithm env p) = Inl (QgsProcessingException NoCodes) \<and>
      calls (snd (processAlgorithm env p)) = [] \<and>
      written (snd (processAlgorithm env p)) = [])"
  using parse_empty_iff [of "mun_codes_str p"] run_without_codes [of p env]
  by (auto simp: init_state_def)

theorem no_codes_aborts_before_any_request_witness:
  "fst (processAlgorithm sample_env (sample_params\<lparr>mun_codes_str := ''Porto Alegre; RS''\<rparr>))
     = Inl (QgsProcessingException NoCodes) \<and>
   calls (snd (processAlgorithm sample_env
     (sample_params\<lparr>mun_codes_str := ''Porto Alegre; RS''\<rparr>))) = []"
proof -
  have "parse_municipality_codes ''Porto Alegre; RS'' = []"
    by code_simp
  then show ?thesis
    using no_codes_aborts_before_any_request
      [of "sample_params\<lparr>mun_codes_str := ''Porto Alegre; RS''\<rparr>" sample_env]
    by simp
qed

subsection \<open>The output path\<close>

lemma splitext_append: "fst (splitext u) @ snd (splitext u) = u"
  by (simp add: splitext_def splitext_generic_def Let_def)

lemma lower_literals:
  "lower ''.gpkg'' = ''.gpkg''" "lower ''.shp'' = ''.shp''" "lower [] = []"
  by code_simp+

lemma lower_append: "lower (a @ b) = lower a @ lower b"
  by (simp add: lower_def)

lemma normalize_path_cases:
  "normalize_output_path u st =
     (if snd (splitext u) = [] then (fst (splitext u) @ ''.gpkg'', st)
      else if lower (snd (splitext u)) = ''.shp''
      then (fst (splitext u) @ ''.gpkg'',
            report_error (ShapefileSelected (fst (splitext u))) st)
      else if lower (snd (splitext u)) \<noteq> ''.gpkg''
      then (fst (splitext u) @ ''.gpkg'', push_info OnlyGpkgCompatible st)
      else (u, st))"
proof -
  obtain base ext0 where sp: "splitext u = (base, ext0)"
    by (meson surj_pair)
  have "base @ ext0 = u"
    using splitext_append [of u] sp by simp
  then show ?thesis
    by (simp add: normalize_output_path_def sp lower_literals Let_def)
qed

text \<open>
  Claim C5, as the code has it. The normalised path ends in \<open>.gpkg\<close> once its letters are
  lowered. It ends in \<open>.gpkg\<close> itself unless the extension chosen already was
  \<open>.gpkg\<close> in some other letter case, and then the path is kept as it was chosen. For
  a Shapefile extension (in any letter case) the one message reported is the warning
  that names the new path. The function is total: nothing is raised.
\<close>

theorem normalized_path_extension:
  "suffix ''.gpkg'' (lower (fst (normalize_output_path u st))) \<and>
   (lower (snd (splitext u)) \<noteq> ''.gpkg'' \<longrightarrow>
      fst (normalize_output_path u st) = fst (splitext u) @ ''.gpkg'') \<and>
   (lower (snd (splitext u)) = ''.gpkg'' \<longrightarrow> fst (normalize_output_path u st) = u) \<and>
   (lower (snd (splitext u)) = ''.shp'' \<longrightarrow>
      feedback (snd (normalize_output_path u st)) =
        feedback st @ [ReportError (ShapefileSelected (fst (splitext u)))])"
proof -
  have "suffix ''.gpkg'' (lower u)" if "lower (snd (splitext u)) = ''.gpkg''"
  proof -
    have "lower u = lower (fst (splitext u)) @ ''.gpkg''"
      using that splitext_append [of u] lower_append by metis
    then show ?thesis by (simp add: suffix_def)
  qed
  then show ?thesis
    by (auto simp: normalize_path_cases lower_append lower_literals suffix_def)
qed

theorem normalized_path_extension_witness:
  "fst (normalize_output_path ''/tmp/redes.shp'' init_state) = ''/tmp/redes.gpkg'' \<and>
   feedback (snd (normalize_output_path ''/tmp/redes.shp'' init_state)) =
     [ReportError (ShapefileSelected ''/tmp/redes'')]"
proof -
  have sp: "splitext ''/tmp/redes.shp'' = (''/tmp/redes'', ''.shp'')"
    by code_simp
  show ?thesis
    using normalized_path_extension [of "''/tmp/redes.shp''" init_state]
    by (simp add: sp lower_literals init_state_def)
qed

theorem upper_case_extension_is_kept:
  "\<not> suffix ''.gpkg'' (fst (normalize_output_path ''/tmp/redes.GPKG'' init_state))"
  by code_simp

subsection \<open>The registry lookup\<close>

lemma lookup_result:
  "fst (lookup_municipality env c st) =
     (case requests_get env (ibge_url c) of
        Inl e \<Rightarrow> Inl (IbgeConnectError e)
      | Inr r \<Rightarrow>
          if status_code r \<noteq> 200 then Inl (IbgeStatusError (status_code r) c)
          else (case json_body r of
                  None \<Rightarrow> Inl IbgeNotJson
                | Some data \<Rightarrow>
                    (case first_if_list c data of
                       Inl f \<Rightarrow> Inl f
                     | Inr d \<Rightarrow>
                         (case read_fields c d of
                            Inl f \<Rightarrow> Inl f
                          | Inr (n, u) \<Rightarrow>
                              Inr (py_str env n, py_str env u,
                                   place_query_of (py_str env n) (py_str env u))))))"
  by (simp add: lookup_municipality_def Let_def
      split: sum.splits option.splits prod.splits)

lemma first_if_list_cases:
  "first_if_list c data = Inl f \<longleftrightarrow> data = JList [] \<and> f = IbgeNoMunicipality c"
  "first_if_list c data = Inr d \<longleftrightarrow>
     (\<exists>rest. data = JList (d # rest)) \<or> (data = d \<and> (\<forall>xs. data \<noteq> JList xs))"
  by (auto simp: first_if_list_def split: json.splits list.splits)

lemma read_fields_cases:
  "read_fields c d = Inl f \<longleftrightarrow>
     (\<exists>e. f = IbgeUnexpected c e \<and>
        (getitem_str d ''nome'' = Inl e \<or>
         (\<exists>n. getitem_str d ''nome'' = Inr n) \<and> getpath d sigla_path = Inl e))"
  "read_fields c d = Inr (n, u) \<longleftrightarrow>
     getitem_str d ''nome'' = Inr n \<and> getpath d sigla_path = Inr u"
  by (auto simp: read_fields_def split: sum.splits)

lemma getitem_not_list: "getitem_str d key = Inr v \<Longrightarrow> d \<noteq> JList xs"
  by (cases d) auto

text \<open>
  Claim C8. For an answer with status 200 and a JSON body, the lookup reads the object itself
  or, of a list that is not empty, its first element; the name is the field \<open>nome\<close>,
  the region the field \<open>sigla\<close> under \<open>microrregiao\<close>, \<open>mesorregiao\<close>, \<open>UF\<close>, and
  the query is name, region and \<open>Brasil\<close> joined by a comma and a space. A field that
  is a string is taken as it is.
\<close>

theorem resolver_reads_object_or_list:
  assumes "requests_get env (ibge_url c) = Inr r"
    and "status_code r = 200"
    and "json_body r = Some data"
    and "data = d \<or> (\<exists>rest. data = JList (d # rest))"
    and "getitem_str d ''nome'' = Inr n"
    and "getpath d [''microrregiao'', ''mesorregiao'', ''UF'', ''sigla''] = Inr u"
  shows "fst (lookup_municipality env c st) =
           Inr (py_str env n, py_str env u,
                py_str env n @ '', '' @ py_str env u @ '', Brasil'') \<and>
         (\<forall>name. py_str env (JStr name) = name)"
proof -
  have "first_if_list c data = Inr d"
    using assms(4) getitem_not_list [OF assms(5)]
    by (auto simp: first_if_list_cases)
  moreover have "read_fields c d = Inr (n, u)"
    using assms(5,6) by (simp add: read_fields_cases sigla_path_def)
  ultimately show ?thesis
    using assms(1-3)
    by (simp add: lookup_result place_query_of_def py_str_def)
qed

theorem resolver_reads_object_or_list_witness:
  "fst (lookup_municipality sample_env ''4314902'' init_state) =
     Inr (''Porto Alegre'', ''RS'', ''Porto Alegre, RS, Brasil'') \<and>
   fst (lookup_municipality list_answer_env ''4314902'' init_state) =
     Inr (''Porto Alegre'', ''RS'', ''Porto Alegre, RS, Brasil'')"
proof -
  have nome: "getitem_str sample_answer ''nome'' = Inr (JStr ''Porto Alegre'')"
    by (simp add: sample_answer_def)
  have sigla: "getpath sample_answer [''microrregiao'', ''mesorregiao'', ''UF'', ''sigla'']
      = Inr (JStr ''RS'')"
    by (simp add: sample_answer_def)
  have object: "fst (lookup_municipality sample_env ''4314902'' init_state) =
      Inr (''Porto Alegre'', ''RS'', ''Porto Alegre, RS, Brasil'')"
    using resolver_reads_object_or_list
      [of sample_env "''4314902''" "\<lparr>status_code = 200, json_body = Some sample_answer\<rparr>"
        sample_answer sample_answer "JStr ''Porto Alegre''" "JStr ''RS''" init_state]
      nome sigla
    by (simp add: sample_env_def)
  have list: "fst (lookup_municipality list_answer_env ''4314902'' init_state) =
      Inr (''Porto Alegre'', ''RS'', ''Porto Alegre, RS, Brasil'')"
    using resolver_reads_object_or_list
      [of list_answer_env "''4314902''"
        "\<lparr>status_code = 200, json_body = Some (JList [sample_answer])\<rparr>"
        "JList [sample_answer]" sample_answer "JStr ''Porto Alegre''" "JStr ''RS''"
        init_state]
      nome sigla
    by (simp add: list_answer_env_def sample_env_def)
  show ?thesis using object list by simp
qed

lemma names_code_self:
  "names_code (IbgeStatusError s c) c"
  "names_code (IbgeNoMunicipality c) c"
  "names_code (IbgeUnexpected c e) c"
  by (cases e; simp add: names_code_def)+

lemma lookup_fails_connect:
  assumes "requests_get env (ibge_url c) = Inl e"
  shows "fst (lookup_municipality env c st) = Inl f \<longleftrightarrow> f = IbgeConnectError e"
  using assms by (auto simp: lookup_result)

lemma lookup_fails_status:
  assumes "requests_get env (ibge_url c) = Inr r" and "status_code r \<noteq> 200"
  shows "fst (lookup_municipality env c st) = Inl f \<longleftrightarrow>
         f = IbgeStatusError (status_code r) c"
  using assms by (auto simp: lookup_result)

lemma lookup_fails_not_json:
  assumes "requests_get env (ibge_url c) = Inr r" and "status_code r = 200"
    and "json_body r = None"
  shows "fst (lookup_municipality env c st) = Inl f \<longleftrightarrow> f = IbgeNotJson"
  using assms by (auto simp: lookup_result)

lemma lookup_fails_body:
  assumes "requests_get env (ibge_url c) = Inr r" and "status_code r = 200"
    and "json_body r = Some data"
  shows "fst (lookup_municipality env c st) = Inl f \<longleftrightarrow>
         (data = JList [] \<and> f = IbgeNoMunicipality c) \<or>
         (\<exists>d e. first_if_list c data = Inr d \<and>
            (getitem_str d ''nome'' = Inl e \<or>
             (\<exists>n. getitem_str d ''nome'' = Inr n) \<and> getpath d sigla_path = Inl e) \<and>
            f = IbgeUnexpected c e)"
proof (cases "first_if_list c data")
  case (Inl g)
  then have g: "data = JList []" "g = IbgeNoMunicipality c"
    by (simp_all add: first_if_list_cases)
  have "fst (lookup_municipality env c st) = Inl g"
    using assms Inl by (simp add: lookup_result)
  then show ?thesis
    using g Inl by auto
next
  case (Inr d)
  then have ne: "data \<noteq> JList []"
    by (auto simp: first_if_list_def)
  have "fst (lookup_municipality env c st) = Inl f \<longleftrightarrow> read_fields c d = Inl f"
    using assms Inr by (simp add: lookup_result split: sum.splits prod.splits)
  also have "\<dots> \<longleftrightarrow> (\<exists>e. (getitem_str d ''nome'' = Inl e \<or>
             (\<exists>n. getitem_str d ''nome'' = Inr n) \<and> getpath d sigla_path = Inl e) \<and>
            f = IbgeUnexpected c e)"
    unfolding read_fields_cases(1) by blast
  finally show ?thesis
    using ne Inr by simp
qed

text \<open>
  Claim C4, as the code has it. The lookup raises in exactly five cases: the request itself
  raises, the status is not 200, the body is no JSON, the body is the empty list, or
  reading the two fields raises. The message names the code for a status other than
  200, for the empty list and for the unreadable fields. For a failed request the
  message holds the text of the exception only, and for a body that is no JSON it is a
  fixed text: neither names the code, unless the exception's text does.
\<close>

theorem registry_failure_taxonomy:
  "(fst (lookup_municipality env c st) = Inl f \<longleftrightarrow>
      (\<exists>e. requests_get env (ibge_url c) = Inl e \<and> f = IbgeConnectError e) \<or>
      (\<exists>r. requests_get env (ibge_url c) = Inr r \<and> status_code r \<noteq> 200 \<and>
           f = IbgeStatusError (status_code r) c) \<or>
      (\<exists>r. requests_get env (ibge_url c) = Inr r \<and> status_code r = 200 \<and>
           json_body r = None \<and> f = IbgeNotJson) \<or>
      (\<exists>r. requests_get env (ibge_url c) = Inr r \<and> status_code r = 200 \<and>
           json_body r = Some (JList []) \<and> f = IbgeNoMunicipality c) \<or>
      (\<exists>r data d e. requests_get env (ibge_url c) = Inr r \<and> status_code r = 200 \<and>
           json_body r = Some data \<and> first_if_list c data = Inr d \<and>
           (getitem_str d ''nome'' = Inl e \<or>
            (\<exists>n. getitem_str d ''nome'' = Inr n) \<and> getpath d sigla_path = Inl e) \<and>
           f = IbgeUnexpected c e)) \<and>
   names_code (IbgeStatusError s c) c \<and>
   names_code (IbgeNoMunicipality c) c \<and>
   names_code (IbgeUnexpected c e') c \<and>
   (names_code (IbgeConnectError x) c \<longleftrightarrow> sublist c x) \<and>
   \<not> names_code IbgeNotJson c"
proof -
  have cases: "fst (lookup_municipality env c st) = Inl f \<longleftrightarrow>
      (\<exists>e. requests_get env (ibge_url c) = Inl e \<and> f = IbgeConnectError e) \<or>
      (\<exists>r. requests_get env (ibge_url c) = Inr r \<and> status_code r \<noteq> 200 \<and>
           f = IbgeStatusError (status_code r) c) \<or>
      (\<exists>r. requests_get env (ibge_url c) = Inr r \<and> status_code r = 200 \<and>
           json_body r = None \<and> f = IbgeNotJson) \<or>
      (\<exists>r. requests_get env (ibge_url c) = Inr r \<and> status_code r = 200 \<and>
           json_body r = Some (JList []) \<and> f = IbgeNoMunicipality c) \<or>
      (\<exists>r data d e. requests_get env (ibge_url c) = Inr r \<and> status_code r = 200 \<and>
           json_body r = Some data \<and> first_if_list c data = Inr d \<and>
           (getitem_str d ''nome'' = Inl e \<or>
            (\<exists>n. getitem_str d ''nome'' = Inr n) \<and> getpath d sigla_path = Inl e) \<and>
           f = IbgeUnexpected c e)"
  proof (cases "requests_get env (ibge_url c)")
    case (Inl e)
    show ?thesis
      unfolding lookup_fails_connect [OF Inl] using Inl by simp
  next
    case (Inr r)
    show ?thesis
    proof (cases "status_code r = 200")
      case False
      show ?thesis
        unfolding lookup_fails_status [OF Inr False] using Inr False by simp
    next
      case True
      show ?thesis
      proof (cases "json_body r")
        case None
        show ?thesis
          unfolding lookup_fails_not_json [OF Inr True None] using Inr True None by simp
      next
        case (Some data)
        show ?thesis
          unfolding lookup_fails_body [OF Inr True Some] using Inr True Some by simp
      qed
    qed
  qed
  have names: "names_code (IbgeConnectError x) c \<longleftrightarrow> sublist c x"
    "\<not> names_code IbgeNotJson c"
    by (simp_all add: names_code_def)
  show ?thesis
    by (intro conjI cases names names_code_self)
qed

theorem registry_failure_taxonomy_witness:
  "fst (lookup_municipality not_found_env ''9999999'' init_state) =
     Inl (IbgeStatusError 404 ''9999999'') \<and>
   names_code (IbgeStatusError 404 ''9999999'') ''9999999''"
proof -
  have get: "requests_get not_found_env (ibge_url ''9999999'') =
      Inr \<lparr>status_code = 404, json_body = None\<rparr>"
    by (simp add: not_found_env_def)
  have "\<exists>r. requests_get not_found_env (ibge_url ''9999999'') = Inr r \<and>
      status_code r \<noteq> 200 \<and>
      IbgeStatusError 404 ''9999999'' = IbgeStatusError (status_code r) ''9999999''"
    using get by simp
  then show ?thesis
    using registry_failure_taxonomy
      [of not_found_env "''9999999''" init_state "IbgeStatusError 404 ''9999999''" 404
        TypeError "[]"]
    by blast
qed

theorem malformed_json_message_omits_code:
  "fst (lookup_municipality not_json_env ''4314902'' init_state) = Inl IbgeNotJson \<and>
   \<not> names_code IbgeNotJson ''4314902''"
  by (simp add: lookup_result not_json_env_def names_code_def)

subsection \<open>What each stage leaves of the state\<close>

lemma http_urls_append [simp]: "http_urls (xs @ ys) = http_urls xs @ http_urls ys"
  by (induction xs rule: http_urls.induct) simp_all

lemma reported_errors_append [simp]:
  "reported_errors (xs @ ys) = reported_errors xs @ reported_errors ys"
  by (induction xs rule: reported_errors.induct) simp_all

lemma lookup_keeps:
  assumes "lookup_municipality env c st = (r, st')"
  shows "written st' = written st" and "created_layers st' = created_layers st"
    and "calls st' = calls st @ [HttpGet (ibge_url c)]"
    and "reported_errors (feedback st') = reported_errors (feedback st)"
  using assms
  by (auto simp: lookup_municipality_def Let_def
      split: sum.splits if_splits option.splits prod.splits)

lemma fetch_keeps:
  assumes "fetch_boundary env q st = (r, st')"
  shows "written st' = written st" and "created_layers st' = created_layers st"
    and "calls st' = calls st @ [GeocodeToGdf q]"
    and "feedback st' = feedback st"
  using assms
  by (auto simp: fetch_boundary_def Let_def split: sum.splits list.splits)

lemma buffer_keeps:
  assumes "apply_buffer env b q gdf g st = (g', st')"
  shows "written st' = written st" and "created_layers st' = created_layers st"
    and "calls st' = calls st"
  using assms
  by (auto simp: apply_buffer_def split: sum.splits if_splits)

lemma download_keeps:
  assumes "download_network env nt n u q g st = (r, st')"
  shows "written st' = written st" and "created_layers st' = created_layers st"
    and "calls st' = calls st @ [GraphFromPolygon g nt]"
    and "reported_errors (feedback st') = reported_errors (feedback st)"
  using assms
  by (auto simp: download_network_def Let_def split: sum.splits)

lemma strip_keeps:
  assumes "strip_crs env e st = (e', st')"
  shows "written st' = written st" and "created_layers st' = created_layers st"
    and "calls st' = calls st"
  using assms
  by (auto simp: strip_crs_def Let_def split: sum.splits option.splits)

lemma save_layer_cases:
  assumes "save_layer env cfg c n u e st = (r, st')"
  shows "calls st' = calls st \<and>
     reported_errors (feedback st') = reported_errors (feedback st) \<and>
     (r = Inr () \<longrightarrow>
        written st' = written st @ [(cfg_out_path cfg, layer_name_of c, e)] \<and>
        created_layers st' = created_layers st @ [layer_name_of c]) \<and>
     (\<forall>f. r = Inl f \<longrightarrow>
        (f = LayerSaveError (layer_name_of c)
               (the (to_file env e (cfg_out_path cfg) (layer_name_of c))) \<and>
         written st' = written st \<and> created_layers st' = created_layers st) \<or>
        (f = LayerLoadError (layer_name_of c) \<and>
         written st' = written st @ [(cfg_out_path cfg, layer_name_of c, e)] \<and>
         created_layers st' = created_layers st @ [layer_name_of c]))"
  using assms
  by (auto simp: save_layer_def write_layer_def load_layer_def Let_def
      split: option.splits if_splits)

lemma lookup_failed_stage:
  assumes "lookup_municipality env c st = (Inl f, st')"
  shows "failed_stage f = Some RegistryLookup"
proof -
  have "fst (lookup_municipality env c st) = Inl f"
    using assms by simp
  then show ?thesis
    by (auto simp: lookup_result first_if_list_cases read_fields_cases
        split: sum.splits if_splits option.splits prod.splits)
qed

lemma fetch_failed_stage:
  assumes "fetch_boundary env q st = (Inl f, st')"
  shows "failed_stage f = Some BoundaryFetch"
  using assms
  by (auto simp: fetch_boundary_def Let_def split: sum.splits list.splits)

lemma download_failed_stage:
  assumes "download_network env nt n u q g st = (Inl f, st')"
  shows "failed_stage f \<in> {Some NetworkDownload, Some Reprojection, Some EdgeTableConversion}"
  using assms
  by (auto simp: download_network_def Let_def split: sum.splits)

lemma leaves_cong:
  assumes "written s = written st" and "created_layers s = created_layers st"
  shows "failure_leaves cfg c f s st' = failure_leaves cfg c f st st'"
    and "success_leaves cfg c s st' = success_leaves cfg c st st'"
  using assms by (simp_all add: failure_leaves_def success_leaves_def)

lemma save_layer_leaves:
  assumes "save_layer env cfg c n u e st = (r, st')"
  shows "(r = Inr () \<longrightarrow> success_leaves cfg c st st') \<and>
         (\<forall>f. r = Inl f \<longrightarrow> failure_leaves cfg c f st st')"
proof (cases r)
  case (Inl f)
  then consider
      "f = LayerSaveError (layer_name_of c)
             (the (to_file env e (cfg_out_path cfg) (layer_name_of c)))"
      "written st' = written st" "created_layers st' = created_layers st"
    | "f = LayerLoadError (layer_name_of c)"
      "written st' = written st @ [(cfg_out_path cfg, layer_name_of c, e)]"
      "created_layers st' = created_layers st @ [layer_name_of c]"
    using save_layer_cases [OF assms] by blast
  then show ?thesis
    using Inl by cases (simp_all add: failure_leaves_def)
next
  case (Inr x)
  then show ?thesis
    using save_layer_cases [OF assms] by (simp add: success_leaves_def)
qed

lemma finish_cases:
  assumes "finish_municipality env cfg c n u q g st = (r, st')"
  shows "calls st' = calls st @ [GraphFromPolygon g (cfg_network_type cfg)] \<and>
     (r = Inr () \<longrightarrow> success_leaves cfg c st st') \<and>
     (\<forall>f. r = Inl f \<longrightarrow> failure_leaves cfg c f st st')"
proof -
  obtain r1 st1 where d:
    "download_network env (cfg_network_type cfg) n u q g st = (r1, st1)"
    by (meson surj_pair)
  note dk = download_keeps [OF d]
  show ?thesis
  proof (cases r1)
    case (Inl f)
    then have r: "r = Inl f" "st' = st1"
      using assms d by (simp_all add: finish_municipality_def)
    have "failed_stage f \<in>
        {Some NetworkDownload, Some Reprojection, Some EdgeTableConversion}"
      using download_failed_stage d Inl by blast
    then have "failure_leaves cfg c f st st1"
      using dk(1,2) by (auto simp: failure_leaves_def)
    then show ?thesis
      using r dk(3) by simp
  next
    case (Inr e0)
    obtain e1 st2 where s: "strip_crs env e0 st1 = (e1, st2)"
      by (meson surj_pair)
    have sv: "save_layer env cfg c n u e1 st2 = (r, st')"
      using assms d Inr s by (simp add: finish_municipality_def)
    have same: "written st2 = written st" "created_layers st2 = created_layers st"
      using strip_keeps [OF s] dk by simp_all
    have "calls st' = calls st @ [GraphFromPolygon g (cfg_network_type cfg)]"
      using save_layer_cases [OF sv] strip_keeps(3) [OF s] dk(3) by simp
    then show ?thesis
      using save_layer_leaves [OF sv] leaves_cong [OF same] by simp
  qed
qed

lemma municipality_cases:
  assumes "process_municipality env cfg idx c st = (r, st')"
  shows "http_urls (calls st') = http_urls (calls st) @ [ibge_url c] \<and>
     (r = Inr () \<longrightarrow> success_leaves cfg c st st') \<and>
     (\<forall>f. r = Inl f \<longrightarrow> failure_leaves cfg c f st st')"
proof -
  define st1 where "st1 = push_info (ProcessingMunicipality idx (cfg_total cfg) c) st"
  obtain r2 st2 where l: "lookup_municipality env c st1 = (r2, st2)"
    by (meson surj_pair)
  note lk = lookup_keeps [OF l]
  have same2: "written st2 = written st" "created_layers st2 = created_layers st"
    "http_urls (calls st2) = http_urls (calls st) @ [ibge_url c]"
    using lk by (simp_all add: st1_def)
  show ?thesis
  proof (cases r2)
    case (Inl f)
    then have r: "r = Inl f" "st' = st2"
      using assms l by (simp_all add: process_municipality_def st1_def)
    have "failed_stage f = Some RegistryLookup"
      using lookup_failed_stage l Inl by blast
    then have "failure_leaves cfg c f st st2"
      using same2 by (simp add: failure_leaves_def)
    then show ?thesis
      using r same2 by simp
  next
    case (Inr place)
    obtain nome uf q where place: "place = (nome, uf, q)"
      by (cases place) auto
    define st4 where "st4 = push_info (if positive_buffer (cfg_buffer_m cfg)
        then BufferRequested (cfg_buffer_m cfg) else NoBuffer)
        (push_info (NetworkTypeSelected (cfg_network_type cfg)) st2)"
    obtain r5 st5 where b: "fetch_boundary env q st4 = (r5, st5)"
      by (meson surj_pair)
    note bk = fetch_keeps [OF b]
    have same5: "written st5 = written st" "created_layers st5 = created_layers st"
      "http_urls (calls st5) = http_urls (calls st) @ [ibge_url c]"
      using bk same2 by (simp_all add: st4_def)
    show ?thesis
    proof (cases r5)
      case (Inl f)
      then have r: "r = Inl f" "st' = st5"
        using assms l Inr place b
        by (simp_all add: process_municipality_def st1_def st4_def Let_def)
      have "failed_stage f = Some BoundaryFetch"
        using fetch_failed_stage b Inl by blast
      then have "failure_leaves cfg c f st st5"
        using same5 by (simp add: failure_leaves_def)
      then show ?thesis
        using r same5 by simp
    next
      case (Inr bd)
      obtain place_gdf geom0 where bd: "bd = (place_gdf, geom0)"
        by (cases bd) auto
      obtain geom st6 where a:
        "apply_buffer env (cfg_buffer_m cfg) q place_gdf geom0 st5 = (geom, st6)"
        by (meson surj_pair)
      have fin: "finish_municipality env cfg c nome uf q geom st6 = (r, st')"
        using assms l \<open>r2 = Inr place\<close> place b Inr bd a
        by (simp add: process_municipality_def st1_def st4_def Let_def)
      have same6: "written st6 = written st" "created_layers st6 = created_layers st"
        using buffer_keeps [OF a] same5 by simp_all
      have "http_urls (calls st') = http_urls (calls st) @ [ibge_url c]"
        using finish_cases [OF fin] buffer_keeps(3) [OF a] same5(3) by simp
      then show ?thesis
        using finish_cases [OF fin] leaves_cong [OF same6] by simp
    qed
  qed
qed

subsection \<open>The coordinate reference system\<close>

lemma finish_after_download:
  assumes "download_network env (cfg_network_type cfg) n u q g st0 = (Inr edges0, st1)"
  shows "finish_municipality env cfg c n u q g st0 =
           save_layer env cfg c n u (fst (strip_crs env edges0 st1))
             (snd (strip_crs env edges0 st1))"
  using assms by (simp add: finish_municipality_def split: prod.splits)

lemma save_layer_written:
  assumes "to_file env e (cfg_out_path cfg) (layer_name_of c) = None"
  shows "written (snd (save_layer env cfg c n u e st)) =
           written st @ [(cfg_out_path cfg, layer_name_of c, e)]"
  using assms
  by (simp add: save_layer_def write_layer_def load_layer_def Let_def)

text \<open>
  Claim C10. When the edge table has a coordinate reference system and taking it off raises,
  the stage returns the table as it was, the tag still on it, and reports the failure
  after the message that announced the removal; the iteration goes on to write that
  table, and when the write succeeds it is that table that is in the package.
\<close>

theorem crs_strip_failure_is_not_fatal:
  assumes "edges_crs edges = Some crs"
    and "set_crs_none env edges = Inl e"
  shows "strip_crs env edges st =
           (edges, report_error (CrsRemoveFailed e) (push_info (RemovingCrs crs) st)) \<and>
         (download_network env (cfg_network_type cfg) n u q g st0 = (Inr edges, st) \<longrightarrow>
            finish_municipality env cfg c n u q g st0 =
              save_layer env cfg c n u edges
                (report_error (CrsRemoveFailed e) (push_info (RemovingCrs crs) st))) \<and>
         (to_file env edges (cfg_out_path cfg) (layer_name_of c) = None \<longrightarrow>
            written (snd (save_layer env cfg c n u edges st')) =
              written st' @ [(cfg_out_path cfg, layer_name_of c, edges)])"
proof -
  have strip: "strip_crs env edges st =
      (edges, report_error (CrsRemoveFailed e) (push_info (RemovingCrs crs) st))"
    using assms by (simp add: strip_crs_def)
  show ?thesis
    using strip finish_after_download [of env cfg n u q g st0 edges st c]
      save_layer_written [of env edges cfg c n u st']
    by simp
qed

theorem crs_strip_failure_is_not_fatal_witness:
  "strip_crs crs_fails_env sample_edges init_state =
     (sample_edges,
      report_error (CrsRemoveFailed ''no override'')
        (push_info (RemovingCrs ''EPSG:32722'') init_state)) \<and>
   edges_crs sample_edges = Some ''EPSG:32722'' \<and>
   written (snd (save_layer crs_fails_env sample_config ''4314902'' ''Porto Alegre'' ''RS''
       sample_edges init_state)) =
     [(''/tmp/redes.gpkg'', ''osm_segments_4314902'', sample_edges)]"
proof -
  have crs: "edges_crs sample_edges = Some ''EPSG:32722''"
    by (simp add: sample_edges_def)
  have fails: "set_crs_none crs_fails_env sample_edges = Inl ''no override''"
    by (simp add: crs_fails_env_def)
  have wr: "to_file crs_fails_env sample_edges (cfg_out_path sample_config)
      (layer_name_of ''4314902'') = None"
    by (simp add: crs_fails_env_def sample_env_def)
  show ?thesis
    using crs_strip_failure_is_not_fatal [OF crs fails, of init_state sample_config
        "''Porto Alegre''" "''RS''" "''Porto Alegre, RS, Brasil''" 1 init_state
        "''4314902''" init_state]
      crs wr
    by (simp add: init_state_def sample_config_def layer_name_of_def)
qed

subsection \<open>The buffer\<close>




lemmas iteration_defs =
  process_municipality_def finish_municipality_def save_layer_def load_layer_def
  write_layer_def strip_crs_def download_network_def apply_buffer_def
  buffered_boundary_def buffer_primary_def buffer_fallback_def buffer_to_wgs84_def
  positive_buffer_def fetch_boundary_def lookup_municipality_def read_fields_def
  first_if_list_def py_str_def place_query_of_def sigla_path_def layer_name_of_def
  layer_names_def sample_config_def sample_answer_def Let_def



subsection \<open>The loop\<close>

lemma layer_names_success:
  assumes "success_leaves cfg c st st'"
  shows "layer_names st' = layer_names st @ [(cfg_out_path cfg, layer_name_of c)]"
    and "prefix (written st) (written st')"
  using assms by (auto simp: success_leaves_def layer_names_def)

lemma process_codes_success:
  assumes "process_codes env cfg idx cs st = (Inr (), st')"
  shows "layer_names st' =
           layer_names st @ map (\<lambda>c. (cfg_out_path cfg, layer_name_of c)) cs \<and>
         created_layers st' = created_layers st @ map layer_name_of cs \<and>
         http_urls (calls st') = http_urls (calls st) @ map ibge_url cs \<and>
         prefix (written st) (written st')"
  using assms
proof (induction cs arbitrary: idx st)
  case Nil
  then show ?case by simp
next
  case (Cons c cs)
  obtain r st1 where m: "process_municipality env cfg idx c st = (r, st1)"
    by (meson surj_pair)
  show ?case
  proof (cases r)
    case (Inl f)
    then show ?thesis using Cons.prems m by simp
  next
    case (Inr x)
    then have rest: "process_codes env cfg (idx + 1) cs st1 = (Inr (), st')"
      using Cons.prems m by simp
    have ok: "success_leaves cfg c st st1"
      and urls: "http_urls (calls st1) = http_urls (calls st) @ [ibge_url c]"
      using municipality_cases [OF m] Inr by simp_all
    have "created_layers st1 = created_layers st @ [layer_name_of c]"
      using ok by (simp add: success_leaves_def)
    then show ?thesis
      using Cons.IH [OF rest] layer_names_success [OF ok] urls
      by (auto intro: prefix_order.trans)
  qed
qed


subsection \<open>The run\<close>

lemma warn_lengths_keeps:
  "written (warn_lengths cs st) = written st"
  "created_layers (warn_lengths cs st) = created_layers st"
  "calls (warn_lengths cs st) = calls st"
  by (induction cs arbitrary: st) simp_all

lemma normalize_keeps:
  "written (snd (normalize_output_path u st)) = written st"
  "created_layers (snd (normalize_output_path u st)) = created_layers st"
  "calls (snd (normalize_output_path u st)) = calls st"
  "fst (normalize_output_path u st) = fst (normalize_output_path u init_state)"
  by (simp_all add: normalize_path_cases)

lemma loop_start_empty:
  "written (loop_start p) = [] \<and> created_layers (loop_start p) = [] \<and>
   calls (loop_start p) = []"
proof -
  define st2 where "st2 = warn_lengths (parse_municipality_codes (mun_codes_str p))
      (push_info (CodesIdentified (parse_municipality_codes (mun_codes_str p)))
        init_state)"
  obtain out st3 where n: "normalize_output_path (out_path_user p) st2 = (out, st3)"
    by (meson surj_pair)
  have "written st2 = []" "created_layers st2 = []" "calls st2 = []"
    by (simp_all add: st2_def warn_lengths_keeps init_state_def)
  then have "written st3 = []" "created_layers st3 = []" "calls st3 = []"
    using normalize_keeps(1-3) [of "out_path_user p" st2] n by simp_all
  then show ?thesis
    using n by (simp add: loop_start_def Let_def st2_def [symmetric])
qed

lemma run_unfold:
  assumes "parse_municipality_codes (mun_codes_str p) \<noteq> []"
    and "import_osmnx env" and "import_geopandas env"
  shows "processAlgorithm env p =
     (case process_codes env (loop_config p) 1
             (parse_municipality_codes (mun_codes_str p)) (loop_start p) of
        (Inl f, st5) \<Rightarrow> (Inl (QgsProcessingException f), st5)
      | (Inr x, st5) \<Rightarrow>
          (Inr [PARAM_OUTPUT \<mapsto> cfg_out_path (loop_config p)],
           if created_layers st5 \<noteq> []
           then push_info (LayersCreated (created_layers st5)) st5 else st5))"
proof -
  define st2 where "st2 = warn_lengths (parse_municipality_codes (mun_codes_str p))
      (push_info (CodesIdentified (parse_municipality_codes (mun_codes_str p)))
        init_state)"
  obtain out st3 where n: "normalize_output_path (out_path_user p) st2 = (out, st3)"
    by (meson surj_pair)
  have out: "out = fst (normalize_output_path (out_path_user p) init_state)"
    using normalize_keeps(4) [of "out_path_user p" st2] n by simp
  have start: "loop_start p = push_info (OutputGpkg out) st3"
    using n by (simp add: loop_start_def Let_def st2_def [symmetric])
  have cfg: "loop_config p =
      \<lparr>cfg_network_type =
         (if net_type_index p < 0 \<or> 5 \<le> net_type_index p then ''drive''
          else NET_TYPE_OPTIONS ! nat (net_type_index p)),
       cfg_buffer_m = buffer_m p, cfg_out_path = out,
       cfg_total = length (parse_municipality_codes (mun_codes_str p))\<rparr>"
    by (simp add: loop_config_def out)
  obtain r st5 where loop: "process_codes env (loop_config p) 1
      (parse_municipality_codes (mun_codes_str p)) (loop_start p) = (r, st5)"
    by (meson surj_pair)
  have run: "processAlgorithm env p =
      (case (r, st5) of
         (Inl f, st5) \<Rightarrow> (Inl (QgsProcessingException f), st5)
       | (Inr x, st5) \<Rightarrow>
           (Inr [PARAM_OUTPUT \<mapsto> out],
            if created_layers st5 \<noteq> []
            then push_info (LayersCreated (created_layers st5)) st5 else st5))"
    using assms n loop [unfolded cfg start]
    by (cases r)
       (simp_all add: processAlgorithm_def select_network_type_cases Let_def
          st2_def [symmetric])
  have "cfg_out_path (loop_config p) = out"
    by (simp add: loop_config_def out)
  then show ?thesis
    unfolding loop run by (cases r) simp_all
qed

lemma run_without_imports:
  assumes "\<not> (import_osmnx env \<and> import_geopandas env)"
  shows "isl (fst (processAlgorithm env p))"
  using assms
  by (auto simp: processAlgorithm_def select_network_type_cases Let_def
      split: prod.splits)

lemma run_returns:
  assumes "processAlgorithm env p = (Inr result, st)"
  shows "\<exists>st5. process_codes env (loop_config p) 1
             (parse_municipality_codes (mun_codes_str p)) (loop_start p) = (Inr (), st5) \<and>
           result = [PARAM_OUTPUT \<mapsto> cfg_out_path (loop_config p)] \<and>
           written st = written st5 \<and> created_layers st = created_layers st5 \<and>
           calls st = calls st5"
proof -
  have codes: "parse_municipality_codes (mun_codes_str p) \<noteq> []"
    using assms run_without_codes [of p env] by auto
  have imp: "import_osmnx env" "import_geopandas env"
    using assms run_without_imports [of env p] by auto
  obtain r st5 where loop: "process_codes env (loop_config p) 1
      (parse_municipality_codes (mun_codes_str p)) (loop_start p) = (r, st5)"
    by (meson surj_pair)
  show ?thesis
  proof (cases r)
    case (Inl f)
    then show ?thesis
      using assms loop by (simp add: run_unfold [OF codes imp])
  next
    case (Inr x)
    then show ?thesis
      using assms loop by (auto simp: run_unfold [OF codes imp] split: if_splits)
  qed
qed


subsection \<open>Every stage raises\<close>

text \<open>
  The failure of a call makes its stage raise, with the message of that stage; the
  iteration then raises what its stage raised, and the run what the loop raised
  (\<open>run_raises\<close>).
\<close>

lemma boundary_failure_raises:
  "geocode_to_gdf env q = Inl e \<Longrightarrow>
     fst (fetch_boundary env q st) = Inl (BoundaryError q e)"
  "geocode_to_gdf env q = Inr [] \<Longrightarrow>
     fst (fetch_boundary env q st) = Inl (BoundaryEmpty q)"
  by (simp_all add: fetch_boundary_def Let_def)

lemma download_failure_raises:
  "graph_from_polygon env g nt = Inl e \<Longrightarrow>
     fst (download_network env nt n u q g st) = Inl (DownloadError q e)"
  "graph_from_polygon env g nt = Inr G \<Longrightarrow> project_graph env G = Inl e \<Longrightarrow>
     fst (download_network env nt n u q g st) = Inl (ProjectError q e)"
  "graph_from_polygon env g nt = Inr G \<Longrightarrow> project_graph env G = Inr G_proj \<Longrightarrow>
   graph_to_gdfs env G_proj = Inl e \<Longrightarrow>
     fst (download_network env nt n u q g st) = Inl (ConvertError q e)"
  by (simp_all add: download_network_def Let_def)

lemma write_failure_raises:
  "to_file env edges (cfg_out_path cfg) (layer_name_of c) = Some e \<Longrightarrow>
     save_layer env cfg c n u edges st = (Inl (LayerSaveError (layer_name_of c) e), st)"
  by (simp add: save_layer_def write_layer_def)

lemma stage_raises_in_iteration:
  "fst (lookup_municipality env c
          (push_info (ProcessingMunicipality idx (cfg_total cfg) c) st)) = Inl f \<Longrightarrow>
     fst (process_municipality env cfg idx c st) = Inl f"
  "fst (download_network env (cfg_network_type cfg) n u q g st) = Inl f \<Longrightarrow>
     fst (finish_municipality env cfg c n u q g st) = Inl f"
  by (auto simp: process_municipality_def finish_municipality_def Let_def
      split: prod.splits sum.splits)

subsection \<open>A failing stage\<close>




lemma load_layer_loaded:
  "load_layer env (cfg_network_type cfg) (cfg_buffer_m cfg) (cfg_out_path cfg)
     (layer_name_of c) n u st =
   (if \<not> layer_is_valid env (loaded_layer cfg c n u)
    then (Inl (LayerLoadError (layer_name_of c)), st)
    else (Inr (),
          push_info (LayerAdded (vlayer_name (loaded_layer cfg c n u)) (cfg_out_path cfg)
                       (layer_name_of c))
            (st\<lparr>temp_store := temp_store st @ [loaded_layer cfg c n u],
                project := project st @ [loaded_layer cfg c n u]\<rparr>)))"
  by (simp add: load_layer_def loaded_layer_def Let_def)

lemma load_failure_raises:
  assumes "to_file env edges (cfg_out_path cfg) (layer_name_of c) = None"
    and "\<not> layer_is_valid env (loaded_layer cfg c n u)"
  shows "save_layer env cfg c n u edges st =
     (Inl (LayerLoadError (layer_name_of c)),
      st\<lparr>written := written st @ [(cfg_out_path cfg, layer_name_of c, edges)],
         created_layers := created_layers st @ [layer_name_of c]\<rparr>)"
  using assms by (simp add: save_layer_def write_layer_def load_layer_loaded Let_def)








subsection \<open>The package after a run that returns\<close>

lemma foldl_add_layer:
  "distinct new \<Longrightarrow>
     foldl add_layer existing new = filter (\<lambda>l. l \<notin> set new) existing @ new"
proof (induction new rule: rev_induct)
  case Nil
  then show ?case by simp
next
  case (snoc x xs)
  have "filter (\<lambda>l. l \<noteq> x) xs = xs"
    using snoc.prems by (auto simp: filter_id_conv)
  moreover have "filter (\<lambda>l. l \<noteq> x) (filter (\<lambda>l. l \<notin> set xs) existing) =
      filter (\<lambda>l. l \<notin> set (xs @ [x])) existing"
    by (simp add: conj_commute)
  ultimately show ?case
    using snoc by (simp add: add_layer_def)
qed

lemma returned_layer_names:
  assumes "processAlgorithm env p = (Inr result, st)"
  shows "layer_names st =
           map (\<lambda>c. (fst (normalize_output_path (out_path_user p) init_state),
                      layer_name_of c))
             (parse_municipality_codes (mun_codes_str p))"
    and "created_layers st = map layer_name_of (parse_municipality_codes (mun_codes_str p))"
    and "http_urls (calls st) = map ibge_url (parse_municipality_codes (mun_codes_str p))"
    and "result = [PARAM_OUTPUT \<mapsto> fst (normalize_output_path (out_path_user p) init_state)]"
proof -
  obtain st5 where loop: "process_codes env (loop_config p) 1
        (parse_municipality_codes (mun_codes_str p)) (loop_start p) = (Inr (), st5)"
    and result: "result = [PARAM_OUTPUT \<mapsto> cfg_out_path (loop_config p)]"
    and same: "written st = written st5" "created_layers st = created_layers st5"
      "calls st = calls st5"
    using run_returns [OF assms] by blast
  have out: "cfg_out_path (loop_config p) =
      fst (normalize_output_path (out_path_user p) init_state)"
    by (simp add: loop_config_def)
  show "layer_names st =
      map (\<lambda>c. (fst (normalize_output_path (out_path_user p) init_state),
                 layer_name_of c))
        (parse_municipality_codes (mun_codes_str p))"
    and "created_layers st =
      map layer_name_of (parse_municipality_codes (mun_codes_str p))"
    and "http_urls (calls st) =
      map ibge_url (parse_municipality_codes (mun_codes_str p))"
    using process_codes_success [OF loop] loop_start_empty [of p] same out
    by (simp_all add: layer_names_def)
  show "result = [PARAM_OUTPUT \<mapsto> fst (normalize_output_path (out_path_user p) init_state)]"
    using result out by simp
qed

lemma returned_package:
  assumes "processAlgorithm env p = (Inr result, st)"
  shows "package_after existing (fst (normalize_output_path (out_path_user p) init_state))
           st =
         filter (\<lambda>l. l \<notin> layer_name_of ` set (parse_municipality_codes (mun_codes_str p)))
           existing @
         map layer_name_of (parse_municipality_codes (mun_codes_str p))"
proof -
  have "map snd (filter (\<lambda>l. fst l = fst (normalize_output_path (out_path_user p) init_state))
      (layer_names st)) = map layer_name_of (parse_municipality_codes (mun_codes_str p))"
    by (simp add: returned_layer_names(1) [OF assms] filter_map comp_def)
  moreover have "distinct (map layer_name_of (parse_municipality_codes (mun_codes_str p)))"
    using parse_distinct [of "mun_codes_str p"]
    by (simp add: distinct_map inj_on_def layer_name_of_def)
  ultimately show ?thesis
    by (simp add: package_after_def foldl_add_layer)
qed

lemma sample_run_returns:
  "\<exists>st. processAlgorithm sample_env sample_params =
          (Inr [PARAM_OUTPUT \<mapsto> ''/tmp/redes.gpkg''], st)"
proof -
  have codes: "parse_municipality_codes (mun_codes_str sample_params) =
      [''4314902'', ''4305108'']"
    unfolding sample_params_def by code_simp
  have out: "fst (normalize_output_path (out_path_user sample_params) init_state) =
      ''/tmp/redes.gpkg''"
    unfolding sample_params_def by code_simp
  have loop: "fst (process_codes sample_env (loop_config sample_params) 1
      [''4314902'', ''4305108''] (loop_start sample_params)) = Inr ()"
    by (simp add: iteration_defs loop_config_def sample_params_def sample_env_def
        NET_TYPE_OPTIONS_def)
  have "\<exists>result. fst (processAlgorithm sample_env sample_params) = Inr result"
    using loop
    by (simp add: run_unfold codes sample_env_def split: prod.splits sum.splits)
  then obtain result st where
    run: "processAlgorithm sample_env sample_params = (Inr result, st)"
    by (metis prod.collapse)
  show ?thesis
    using returned_layer_names(4) [OF run] run by (simp add: out)
qed

text \<open>
  Claim C1, as stated: after a run over N codes with no fatal error the package holds
  exactly N layers. Not when the file was there before the run: nothing in the run
  empties it. The sample run over two codes returns, and a package that held the layer
  \<open>bairros\<close> holds three layers after it.
\<close>

theorem reused_package_keeps_its_layers:
  "fst (processAlgorithm sample_env sample_params) =
     Inr [PARAM_OUTPUT \<mapsto> ''/tmp/redes.gpkg''] \<and>
   parse_municipality_codes (mun_codes_str sample_params) = [''4314902'', ''4305108''] \<and>
   package_after [''bairros''] ''/tmp/redes.gpkg''
     (snd (processAlgorithm sample_env sample_params)) =
     [''bairros'', ''osm_segments_4314902'', ''osm_segments_4305108''] \<and>
   length (package_after [''bairros''] ''/tmp/redes.gpkg''
     (snd (processAlgorithm sample_env sample_params))) \<noteq>
     length (parse_municipality_codes (mun_codes_str sample_params))"
proof -
  have codes: "parse_municipality_codes (mun_codes_str sample_params) =
      [''4314902'', ''4305108'']"
    unfolding sample_params_def by code_simp
  have out: "fst (normalize_output_path (out_path_user sample_params) init_state) =
      ''/tmp/redes.gpkg''"
    unfolding sample_params_def by code_simp
  obtain st where run: "processAlgorithm sample_env sample_params =
      (Inr [PARAM_OUTPUT \<mapsto> ''/tmp/redes.gpkg''], st)"
    using sample_run_returns by blast
  have "package_after [''bairros''] ''/tmp/redes.gpkg'' st =
      [''bairros'', ''osm_segments_4314902'', ''osm_segments_4305108'']"
    using returned_package [OF run, of "[''bairros'']"]
    by (simp add: out codes layer_name_of_def)
  then show ?thesis
    using run codes by simp
qed

text \<open>
  Claim C1, as the code has it. When the run returns: the layers it has written are, in
  the order of the codes parsed from the input, one layer \<open>osm_segments_\<close> and the
  code for each code, all in the package at the normalised path; they are as many as
  the codes, their names differ, the registry was asked once for each code in that
  order, and the result maps the output key to the normalised path and nothing else.
  The package at that path ends with the layers it held before under other names,
  followed by these layers: a package that held no layer ends with exactly these, as
  many as the codes.
\<close>

theorem successful_run_layers:
  assumes "processAlgorithm env p = (Inr result, st)"
  shows "layer_names st =
           map (\<lambda>c. (fst (normalize_output_path (out_path_user p) init_state),
                      layer_name_of c))
             (parse_municipality_codes (mun_codes_str p)) \<and>
         length (written st) = length (parse_municipality_codes (mun_codes_str p)) \<and>
         distinct (map snd (layer_names st)) \<and>
         created_layers st = map layer_name_of (parse_municipality_codes (mun_codes_str p)) \<and>
         http_urls (calls st) = map ibge_url (parse_municipality_codes (mun_codes_str p)) \<and>
         result = [PARAM_OUTPUT \<mapsto> fst (normalize_output_path (out_path_user p) init_state)] \<and>
         (\<forall>existing.
            package_after existing
              (fst (normalize_output_path (out_path_user p) init_state)) st =
            filter (\<lambda>l. l \<notin> layer_name_of ` set (parse_municipality_codes (mun_codes_str p)))
              existing @
            map layer_name_of (parse_municipality_codes (mun_codes_str p))) \<and>
         package_after [] (fst (normalize_output_path (out_path_user p) init_state)) st =
           map layer_name_of (parse_municipality_codes (mun_codes_str p)) \<and>
         length (package_after []
             (fst (normalize_output_path (out_path_user p) init_state)) st) =
           length (parse_municipality_codes (mun_codes_str p))"
proof -
  note names = returned_layer_names(1) [OF assms]
  have len: "length (written st) = length (parse_municipality_codes (mun_codes_str p))"
    using arg_cong [OF names, of length] by (simp add: layer_names_def)
  have "map snd (layer_names st) =
      map layer_name_of (parse_municipality_codes (mun_codes_str p))"
    by (simp add: names comp_def)
  then have dist: "distinct (map snd (layer_names st))"
    using parse_distinct [of "mun_codes_str p"]
    by (simp add: distinct_map inj_on_def layer_name_of_def)
  have pack: "package_after existing
        (fst (normalize_output_path (out_path_user p) init_state)) st =
      filter (\<lambda>l. l \<notin> layer_name_of ` set (parse_municipality_codes (mun_codes_str p)))
        existing @
      map layer_name_of (parse_municipality_codes (mun_codes_str p))" for existing
    by (rule returned_package [OF assms])
  have empty: "package_after []
        (fst (normalize_output_path (out_path_user p) init_state)) st =
      map layer_name_of (parse_municipality_codes (mun_codes_str p))"
    using pack [of "[]"] by simp
  show ?thesis
    using names len dist returned_layer_names(2-4) [OF assms] pack empty by simp
qed

theorem successful_run_layers_witness:
  "layer_names (snd (processAlgorithm sample_env sample_params)) =
     [(''/tmp/redes.gpkg'', ''osm_segments_4314902''),
      (''/tmp/redes.gpkg'', ''osm_segments_4305108'')] \<and>
   fst (processAlgorithm sample_env sample_params) =
     Inr [PARAM_OUTPUT \<mapsto> ''/tmp/redes.gpkg''] \<and>
   package_after [] ''/tmp/redes.gpkg'' (snd (processAlgorithm sample_env sample_params)) =
     [''osm_segments_4314902'', ''osm_segments_4305108''] \<and>
   package_after [''bairros'', ''osm_segments_4305108''] ''/tmp/redes.gpkg''
       (snd (processAlgorithm sample_env sample_params)) =
     [''bairros'', ''osm_segments_4314902'', ''osm_segments_4305108'']"
proof -
  have codes: "parse_municipality_codes (mun_codes_str sample_params) =
      [''4314902'', ''4305108'']"
    unfolding sample_params_def by code_simp
  have out: "fst (normalize_output_path (out_path_user sample_params) init_state) =
      ''/tmp/redes.gpkg''"
    unfolding sample_params_def by code_simp
  obtain st where run: "processAlgorithm sample_env sample_params =
      (Inr [PARAM_OUTPUT \<mapsto> ''/tmp/redes.gpkg''], st)"
    using sample_run_returns by blast
  have pack: "\<forall>existing. package_after existing ''/tmp/redes.gpkg'' st =
      filter (\<lambda>l. l \<notin> layer_name_of ` {''4314902'', ''4305108''}) existing @
      [''osm_segments_4314902'', ''osm_segments_4305108'']"
    and names: "layer_names st =
      [(''/tmp/redes.gpkg'', ''osm_segments_4314902''),
       (''/tmp/redes.gpkg'', ''osm_segments_4305108'')]"
    using successful_run_layers [OF run] by (simp_all add: codes out layer_name_of_def)
  show ?thesis
    using run names pack by (simp add: layer_name_of_def)
qed

end
